theory Spec2Isabelle
  imports Main "HOL-Library.Sublist"
begin

section \<open>JavaScript strings and values\<close>

text \<open>
  A JavaScript string is modelled as the \<open>string\<close> (a list of 8-bit characters) that holds
  its UTF-8 encoding; the signs of the replies are written out as their bytes below.
  \<open>whiteSpace\<close> lists the encodings of the code points that \<open>String.prototype.trim\<close> and
  the regular expression class \<open>\s\<close> treat as white space (the \<open>WhiteSpace\<close> and
  \<open>LineTerminator\<close> productions of ECMAScript): U+0009 to U+000D, U+0020, U+00A0, U+1680,
  U+2000 to U+200A, U+2028, U+2029, U+202F, U+205F, U+3000 and U+FEFF. No encoding is a
  prefix or a suffix of another, and none begins with a continuation byte, so matching
  them against the bytes of a well-formed string matches whole code points.
  \<open>toLowerCase\<close> maps \<open>A-Z\<close> to \<open>a-z\<close> (the case mapping of letters outside ASCII is not
  modelled), and \<open>\d\<close> is \<open>0-9\<close>. Numbers are modelled as \<open>int\<close>.
\<close>

definition whiteSpace :: "string list" where
  "whiteSpace =
     [[CHR 0x09], [CHR 0x0A], [CHR 0x0B], [CHR 0x0C], [CHR 0x0D], [CHR 0x20],
      [CHR 0xC2, CHR 0xA0],
      [CHR 0xE1, CHR 0x9A, CHR 0x80],
      [CHR 0xE2, CHR 0x80, CHR 0x80], [CHR 0xE2, CHR 0x80, CHR 0x81],
      [CHR 0xE2, CHR 0x80, CHR 0x82], [CHR 0xE2, CHR 0x80, CHR 0x83],
      [CHR 0xE2, CHR 0x80, CHR 0x84], [CHR 0xE2, CHR 0x80, CHR 0x85],
      [CHR 0xE2, CHR 0x80, CHR 0x86], [CHR 0xE2, CHR 0x80, CHR 0x87],
      [CHR 0xE2, CHR 0x80, CHR 0x88], [CHR 0xE2, CHR 0x80, CHR 0x89],
      [CHR 0xE2, CHR 0x80, CHR 0x8A],
      [CHR 0xE2, CHR 0x80, CHR 0xA8], [CHR 0xE2, CHR 0x80, CHR 0xA9],
      [CHR 0xE2, CHR 0x80, CHR 0xAF],
      [CHR 0xE2, CHR 0x81, CHR 0x9F],
      [CHR 0xE3, CHR 0x80, CHR 0x80],
      [CHR 0xEF, CHR 0xBB, CHR 0xBF]]"

text \<open>The white space character that a string begins with, and the one it ends with.\<close>

definition leadingSpace :: "string \<Rightarrow> string option" where
  "leadingSpace s = find (\<lambda>p. prefix p s) whiteSpace"

definition trailingSpace :: "string \<Rightarrow> string option" where
  "trailingSpace s = find (\<lambda>p. suffix p s) whiteSpace"

text \<open>\<open>s.trim()\<close>: the white space characters at the start and at the end are removed, one
  after the other.\<close>

function trimStart :: "string \<Rightarrow> string" where
  "trimStart s =
     (case leadingSpace s of None \<Rightarrow> s | Some p \<Rightarrow> trimStart (drop (length p) s))"
  by pat_completeness auto
termination
proof (relation "measure length")
  show "wf (measure length)" by simp
next
  fix s p
  assume "leadingSpace s = Some p"
  then have "p \<in> set whiteSpace" and "prefix p s"
    by (auto simp add: leadingSpace_def find_Some_iff)
  then have "p \<noteq> []" and "length p \<le> length s"
    by (auto simp add: whiteSpace_def prefix_length_le)
  then show "(drop (length p) s, s) \<in> measure length"
    by (cases p) auto
qed

function trimEnd :: "string \<Rightarrow> string" where
  "trimEnd s =
     (case trailingSpace s of None \<Rightarrow> s | Some p \<Rightarrow> trimEnd (take (length s - length p) s))"
  by pat_completeness auto
termination
proof (relation "measure length")
  show "wf (measure length)" by simp
next
  fix s p
  assume "trailingSpace s = Some p"
  then have "p \<in> set whiteSpace" and "suffix p s"
    by (auto simp add: trailingSpace_def find_Some_iff)
  then have "p \<noteq> []" and "length p \<le> length s"
    by (auto simp add: whiteSpace_def suffix_length_le)
  then show "(take (length s - length p) s, s) \<in> measure length"
    by (cases p) auto
qed

declare trimStart.simps [simp del]
declare trimEnd.simps [simp del]

definition trim :: "string \<Rightarrow> string" where
  "trim s = trimEnd (trimStart s)"

definition toLowerChar :: "char \<Rightarrow> char" where
  "toLowerChar c =
     (case map_of (zip ''ABCDEFGHIJKLMNOPQRSTUVWXYZ'' ''abcdefghijklmnopqrstuvwxyz'') c of
        Some l \<Rightarrow> l
      | None \<Rightarrow> c)"

definition toLowerCase :: "string \<Rightarrow> string" where
  "toLowerCase s = map toLowerChar s"

definition startsWith :: "string \<Rightarrow> string \<Rightarrow> bool" where
  "startsWith s p = prefix p s"

text \<open>\<open>s.includes(pat)\<close>: \<open>pat\<close> occurs in \<open>s\<close> as a contiguous substring.\<close>

fun includesStr :: "string \<Rightarrow> string \<Rightarrow> bool" where
  "includesStr [] pat = (pat = [])"
| "includesStr (c # cs) pat = (prefix pat (c # cs) \<or> includesStr cs pat)"

text \<open>\<open>s.split(d)\<close> for a one-character separator.\<close>

fun splitOn :: "char \<Rightarrow> string \<Rightarrow> string list" where
  "splitOn d [] = [[]]"
| "splitOn d (c # cs) =
     (if c = d then [] # splitOn d cs
      else (case splitOn d cs of [] \<Rightarrow> [[c]] | p # ps \<Rightarrow> (c # p) # ps))"

text \<open>Decimal rendering of a number in a template literal, and \<open>Number.parseInt(s, 10)\<close>
  on a string of digits.\<close>

definition digitChar :: "nat \<Rightarrow> char" where
  "digitChar d = ''0123456789'' ! (d mod 10)"

function showNat :: "nat \<Rightarrow> string" where
  "showNat n = (if n < 10 then [digitChar n] else showNat (n div 10) @ [digitChar (n mod 10)])"
  by pat_completeness auto
termination
  by (relation "measure (\<lambda>n. n)") auto

declare showNat.simps [simp del]

definition showInt :: "int \<Rightarrow> string" where
  "showInt i = (if i < 0 then CHR ''-'' # showNat (nat (- i)) else showNat (nat i))"

definition isDigit :: "char \<Rightarrow> bool" where
  "isDigit c = (c \<in> set ''0123456789'')"

text \<open>The regular expression \<open>/^\d+$/\<close>.\<close>

definition allDigits :: "string \<Rightarrow> bool" where
  "allDigits s = (s \<noteq> [] \<and> list_all isDigit s)"

definition digitVal :: "char \<Rightarrow> nat" where
  "digitVal c = of_char c - 48"

definition parseDigits :: "string \<Rightarrow> nat" where
  "parseDigits s = foldl (\<lambda>a c. 10 * a + digitVal c) 0 s"

text \<open>
  A value of type \<open>unknown\<close>: what a configuration field, a gateway response or a
  chat message may hold. An object is an association list in which the first binding
  of a key is the one read.
\<close>

datatype json =
    JUndefined
  | JNull
  | JBool bool
  | JNum int
  | JStr string
  | JArr "json list"
  | JObj "(string \<times> json) list"

text \<open>Optional property access \<open>v?.k\<close>.\<close>

fun getField :: "json \<Rightarrow> string \<Rightarrow> json" where
  "getField (JObj kvs) k = (case map_of kvs k of Some v \<Rightarrow> v | None \<Rightarrow> JUndefined)"
| "getField _ k = JUndefined"

text \<open>Truthiness of an optional string: defined and not empty.\<close>

fun truthyStr :: "string option \<Rightarrow> bool" where
  "truthyStr None = False"
| "truthyStr (Some s) = (s \<noteq> [])"

definition optStr :: "string option \<Rightarrow> json" where
  "optStr v = (case v of None \<Rightarrow> JUndefined | Some s \<Rightarrow> JStr s)"

text \<open>What a rejected gateway call throws, and the text the callers extract from it:
  \<open>err instanceof Error ? err.message : typeof err === "string" ? err : "error"\<close>.\<close>

datatype thrown = ThrownError string | ThrownString string | ThrownOther

fun errorMessageText :: "thrown \<Rightarrow> string" where
  "errorMessageText (ThrownError m) = m"
| "errorMessageText (ThrownString s) = s"
| "errorMessageText ThrownOther = ''error''"


text \<open>The nullish coalescing operator \<open>a ?? b\<close> on optional values.\<close>

definition orElse :: "'a option \<Rightarrow> 'a option \<Rightarrow> 'a option" where
  "orElse a b = (case a of Some x \<Rightarrow> Some x | None \<Rightarrow> b)"

text \<open>\<open>xs.join(sep)\<close>, and the elements of a JavaScript \<open>Set\<close> built from a list:
  each value once, in the order of first insertion.\<close>

fun joinWith :: "string \<Rightarrow> string list \<Rightarrow> string" where
  "joinWith sep [] = []"
| "joinWith sep [x] = x"
| "joinWith sep (x # y # ys) = x @ sep @ joinWith sep (y # ys)"

definition setOrder :: "'a list \<Rightarrow> 'a list" where
  "setOrder xs = rev (remdups (rev xs))"

section \<open>Data model\<close>

datatype thread_id = ThreadStr string | ThreadNum int

text \<open>The delivery context that \<open>normalizeDeliveryContext\<close> returns (the function itself
  is outside the sources and is a parameter below).\<close>

record delivery_context =
  dc_channel :: "string option"
  dc_to :: "string option"
  dc_accountId :: "string option"
  dc_threadId :: "thread_id option"

record run_outcome =
  oc_status :: string
  oc_error :: "string option"

text \<open>
  Modelled from the spec: the type \<open>SubagentRunRecord\<close> is declared in the registry module,
  which is not among the sources. The fields are those of section 3 of the specification;
  \<open>steerRestart\<close> is the steer bookkeeping flag "suppress stale announce, this run is being
  replaced".
\<close>

record SubagentRunRecord =
  runId :: string
  childSessionKey :: string
  requesterSessionKey :: string
  requesterOrigin :: "delivery_context option"
  requesterDisplayKey :: string
  task :: string
  cleanup :: string
  label :: "string option"
  model :: "string option"
  runTimeoutSeconds :: "int option"
  createdAt :: int
  startedAt :: "int option"
  endedAt :: "int option"
  outcome :: "run_outcome option"
  archiveAtMs :: "int option"
  cleanupHandled :: bool
  steerRestart :: bool

text \<open>A gateway call \<open>callGateway({method, params, timeoutMs})\<close>.\<close>

record rpc_call =
  rpcMethod :: string
  params :: "(string \<times> json) list"
  timeoutMs :: "int option"

text \<open>
  The observable effects of the subagent core, in the order in which they happen: gateway
  calls, registry mutations, and the calls into the model-execution engine and the
  follow-up queues.
\<close>

datatype event =
    GatewayCall rpc_call
  | RegisterRun string
  | MarkForSteerRestart string
  | ClearSteerRestart string
  | ReplaceAfterSteer string string
  | MarkTerminated string string
  | AbortEmbeddedPiRun string
  | ClearSessionQueues "string option list"

text \<open>
  The state the core works on: the registry table (a JavaScript \<open>Map\<close> keyed by run id,
  kept as the list of its values in insertion order), the trace of effects so far, the
  number of UUIDs drawn from \<open>crypto.randomUUID\<close>, and the reading of \<open>Date.now()\<close>,
  which only the environment advances.
\<close>

record world =
  subagentRuns :: "SubagentRunRecord list"
  trace :: "event list"
  uuidsDrawn :: nat
  nowMs :: int

section \<open>Configuration and collaborators\<close>

text \<open>The part of the configuration the spawn engine reads:
  \<open>cfg.agents?.defaults?.subagents\<close> and \<open>cfg.agents?.defaults?.model?.primary\<close>, and the
  \<open>subagents\<close> section of one agent's configuration.\<close>

record subagent_defaults =
  sd_maxSpawnDepth :: "int option"
  sd_maxChildrenPerAgent :: "int option"
  sd_model :: json
  sd_thinking :: json

record agent_subagents =
  sa_allowAgents :: "string list option"
  sa_model :: json
  sa_thinking :: json

record config =
  cfg_subagents :: "subagent_defaults option"
  cfg_modelPrimary :: json

text \<open>
  The collaborators whose code is outside the sources, as parameters: every theorem below
  holds for whatever these functions compute. \<open>parseAgentSessionKey\<close> gives the
  \<open>agentId\<close> of the parsed key; \<open>resolveAgentConfig\<close> gives the \<open>subagents\<close> section of
  the agent's configuration; \<open>readStringParam\<close> is applied to the value of the
  \<open>thinking\<close> field; \<open>gateway\<close> is the answer of the gateway process to a call;
  \<open>uuidSource n\<close> is the \<open>n\<close>-th draw of \<open>crypto.randomUUID()\<close>; \<open>loadConfig\<close> is
  the configuration that \<open>loadConfig()\<close> returns; \<open>loadSessionEntry\<close> is the \<open>entry\<close>
  that \<open>loadSubagentSessionEntry\<close> reads from the session store (\<open>JUndefined\<close> when the
  store has none); \<open>extractTextFromChatContent\<close> takes the content and whether the
  text is sanitized.
\<close>

record env =
  resolveMainSessionAlias :: "config \<Rightarrow> string \<times> string"
  resolveInternalSessionKey :: "string \<Rightarrow> string \<Rightarrow> string \<Rightarrow> string"
  resolveDisplaySessionKey :: "string \<Rightarrow> string \<Rightarrow> string \<Rightarrow> string"
  getSubagentDepthFromSessionStore :: "string \<Rightarrow> config \<Rightarrow> int"
  normalizeAgentId :: "string option \<Rightarrow> string"
  parseAgentSessionKey :: "string \<Rightarrow> string option"
  resolveAgentConfig :: "config \<Rightarrow> string \<Rightarrow> agent_subagents option"
  resolveDefaultModelForAgent :: "config \<Rightarrow> string \<Rightarrow> string \<times> string"
  readStringParam :: "json \<Rightarrow> string option"
  normalizeThinkLevel :: "string \<Rightarrow> string option"
  formatThinkingLevels :: "string option \<Rightarrow> string option \<Rightarrow> string"
  normalizeDeliveryContext ::
    "string option \<Rightarrow> string option \<Rightarrow> string option \<Rightarrow> thread_id option
       \<Rightarrow> delivery_context option"
  buildSubagentSystemPrompt ::
    "string option \<Rightarrow> delivery_context option \<Rightarrow> string \<Rightarrow> string option \<Rightarrow> string
       \<Rightarrow> int \<Rightarrow> int \<Rightarrow> string"
  gateway :: "rpc_call \<Rightarrow> thrown + json"
  uuidSource :: "nat \<Rightarrow> string"
  loadConfig :: config
  loadSessionEntry :: "string \<Rightarrow> json"
  formatRunLabel :: "SubagentRunRecord \<Rightarrow> nat option \<Rightarrow> string"
  formatRunStatus :: "SubagentRunRecord \<Rightarrow> string"
  truncateLine :: "string \<Rightarrow> nat \<Rightarrow> string"
  formatDurationCompact :: "int \<Rightarrow> string option"
  formatTokenUsageDisplay :: "json \<Rightarrow> string"
  stripToolMessages :: "json list \<Rightarrow> json list"
  extractTextFromChatContent :: "json \<Rightarrow> bool \<Rightarrow> string option"
  extractAssistantText :: "json \<Rightarrow> string option"
  INTERNAL_MESSAGE_CHANNEL :: string

definition randomUUID :: "env \<Rightarrow> world \<Rightarrow> string \<times> world" where
  "randomUUID env w = (uuidSource env (uuidsDrawn w), w\<lparr>uuidsDrawn := Suc (uuidsDrawn w)\<rparr>)"

definition callGateway :: "env \<Rightarrow> rpc_call \<Rightarrow> world \<Rightarrow> (thrown + json) \<times> world" where
  "callGateway env call w = (gateway env call, w\<lparr>trace := trace w @ [GatewayCall call]\<rparr>)"

text \<open>Modelled from the spec: the constant \<open>AGENT_LANE_SUBAGENT\<close> of the lanes module,
  which is not among the sources; section 4.2 names the lane "subagent".\<close>

definition AGENT_LANE_SUBAGENT :: string where
  "AGENT_LANE_SUBAGENT = ''subagent''"

section \<open>Subagent registry\<close>

text \<open>
  Modelled from the spec: the registry module (\<open>subagent-registry\<close>) is not among the
  sources. Section 4.1 of the specification gives its operations; the table is a map
  keyed by run id, so storing a record under a run id that is present replaces it.
\<close>

definition isEnded :: "SubagentRunRecord \<Rightarrow> bool" where
  "isEnded r = (endedAt r \<noteq> None)"

text \<open>Modelled from the spec: \<open>countActiveRunsForSession\<close>, the count of non-ended records
  keyed by the requester.\<close>

definition countActiveRunsForSession :: "world \<Rightarrow> string \<Rightarrow> int" where
  "countActiveRunsForSession w key =
     int (length (filter (\<lambda>r. requesterSessionKey r = key \<and> \<not> isEnded r) (subagentRuns w)))"

text \<open>Modelled from the spec: \<open>listSubagentRunsForRequester\<close>, all records (active and
  recently ended) of a requester.\<close>

definition listSubagentRunsForRequester :: "world \<Rightarrow> string \<Rightarrow> SubagentRunRecord list" where
  "listSubagentRunsForRequester w key = filter (\<lambda>r. requesterSessionKey r = key) (subagentRuns w)"

definition setRun :: "SubagentRunRecord \<Rightarrow> SubagentRunRecord list \<Rightarrow> SubagentRunRecord list" where
  "setRun r rs =
     (if list_ex (\<lambda>x. runId x = runId r) rs
      then map (\<lambda>x. if runId x = runId r then r else x) rs
      else rs @ [r])"

text \<open>Modelled from the spec: \<open>registerSubagentRun\<close> inserts a new record, created at spawn
  time, unstarted and not ended.\<close>

definition registerSubagentRun ::
  "string \<Rightarrow> string \<Rightarrow> string \<Rightarrow> delivery_context option \<Rightarrow> string \<Rightarrow> string \<Rightarrow> string
     \<Rightarrow> string option \<Rightarrow> string option \<Rightarrow> int \<Rightarrow> world \<Rightarrow> world" where
  "registerSubagentRun rid childKey requesterKey origin displayKey tsk cln lbl mdl tmo w =
     w\<lparr>subagentRuns :=
         setRun \<lparr>runId = rid, childSessionKey = childKey, requesterSessionKey = requesterKey,
                 requesterOrigin = origin, requesterDisplayKey = displayKey, task = tsk,
                 cleanup = cln, label = lbl, model = mdl, runTimeoutSeconds = Some tmo,
                 createdAt = nowMs w, startedAt = None, endedAt = None, outcome = None,
                 archiveAtMs = None, cleanupHandled = False, steerRestart = False\<rparr>
           (subagentRuns w),
       trace := trace w @ [RegisterRun rid]\<rparr>"

text \<open>Modelled from the spec: \<open>markSubagentRunTerminated\<close> sets \<open>endedAt\<close> and the outcome
  of the run; a run that has ended already is left as it is.\<close>

definition markSubagentRunTerminated :: "string \<Rightarrow> string \<Rightarrow> string \<Rightarrow> world \<Rightarrow> world" where
  "markSubagentRunTerminated rid childKey reason w =
     w\<lparr>subagentRuns :=
         map (\<lambda>r. if runId r = rid \<and> \<not> isEnded r
                   then r\<lparr>endedAt := Some (nowMs w),
                          outcome := Some \<lparr>oc_status = reason, oc_error = None\<rparr>\<rparr>
                   else r)
           (subagentRuns w),
       trace := trace w @ [MarkTerminated rid reason]\<rparr>"

text \<open>Modelled from the spec: the two operations that toggle the steer-restart flag; on a
  run that does not exist they change nothing in the table.\<close>

definition markSubagentRunForSteerRestart :: "string \<Rightarrow> world \<Rightarrow> world" where
  "markSubagentRunForSteerRestart rid w =
     w\<lparr>subagentRuns := map (\<lambda>r. if runId r = rid then r\<lparr>steerRestart := True\<rparr> else r)
                           (subagentRuns w),
       trace := trace w @ [MarkForSteerRestart rid]\<rparr>"

definition clearSubagentRunSteerRestart :: "string \<Rightarrow> world \<Rightarrow> world" where
  "clearSubagentRunSteerRestart rid w =
     w\<lparr>subagentRuns := map (\<lambda>r. if runId r = rid then r\<lparr>steerRestart := False\<rparr> else r)
                           (subagentRuns w),
       trace := trace w @ [ClearSteerRestart rid]\<rparr>"

text \<open>Modelled from the spec: \<open>replaceSubagentRunAfterSteer\<close> retires the previous run id
  and stores, under the next run id, a record that inherits the requester, child, task and
  label fields of \<open>fallback\<close>, with a fresh \<open>startedAt\<close>.\<close>

definition replaceSubagentRunAfterSteer ::
  "string \<Rightarrow> string \<Rightarrow> SubagentRunRecord \<Rightarrow> int \<Rightarrow> world \<Rightarrow> world" where
  "replaceSubagentRunAfterSteer previousRunId nextRunId fallback tmo w =
     w\<lparr>subagentRuns :=
         setRun (fallback\<lparr>runId := nextRunId, startedAt := Some (nowMs w), endedAt := None,
                          outcome := None, archiveAtMs := None, cleanupHandled := False,
                          steerRestart := False, runTimeoutSeconds := Some tmo\<rparr>)
           (filter (\<lambda>r. runId r \<noteq> previousRunId) (subagentRuns w)),
       trace := trace w @ [ReplaceAfterSteer previousRunId nextRunId]\<rparr>"


section \<open>Subagent spawn engine (\<open>src/agents/subagent-spawn.ts\<close>)\<close>

record SpawnSubagentParams =
  p_task :: string
  p_label :: "string option"
  p_agentId :: "string option"
  p_model :: "string option"
  p_thinking :: "string option"
  p_runTimeoutSeconds :: "int option"
  p_cleanup :: "string option"

record SpawnSubagentContext =
  agentSessionKey :: "string option"
  agentChannel :: "string option"
  agentAccountId :: "string option"
  agentTo :: "string option"
  agentThreadId :: "thread_id option"
  agentGroupId :: "string option"
  agentGroupChannel :: "string option"
  agentGroupSpace :: "string option"
  requesterAgentIdOverride :: "string option"

datatype spawn_status = Accepted | Forbidden | Error

record SpawnSubagentResult =
  status :: spawn_status
  res_childSessionKey :: "string option"
  res_runId :: "string option"
  modelApplied :: "bool option"
  warning :: "string option"
  error :: "string option"

text \<open>\<open>splitModelRef\<close> (lines 51-64): provider and model of a reference
  \<open>provider/model\<close>; \<open>split("/", 2)\<close> keeps the first two pieces.\<close>

definition splitModelRef :: "string option \<Rightarrow> string option \<times> string option" where
  "splitModelRef ref =
     (if \<not> truthyStr ref then (None, None)
      else let trimmed = trim (the ref) in
        if trimmed = [] then (None, None)
        else (case take 2 (splitOn CHR ''/'' trimmed) of
                [provider, mdl] \<Rightarrow> if mdl \<noteq> [] then (Some provider, Some mdl)
                                     else (None, Some trimmed)
              | _ \<Rightarrow> (None, Some trimmed)))"

text \<open>\<open>normalizeModelSelection\<close> (lines 66-79).\<close>

fun normalizeModelSelection :: "json \<Rightarrow> string option" where
  "normalizeModelSelection (JStr v) = (let trimmed = trim v in if trimmed = [] then None else Some trimmed)"
| "normalizeModelSelection (JObj kvs) =
     (case getField (JObj kvs) ''primary'' of
        JStr primary \<Rightarrow> if trim primary \<noteq> [] then Some (trim primary) else None
      | _ \<Rightarrow> None)"
| "normalizeModelSelection _ = None"

text \<open>The local values of \<open>spawnSubagentDirect\<close> (lines 85-192) that depend only on the
  request, the context, the configuration and the collaborators, under their names in
  the source.\<close>

definition spawnLabel :: "SpawnSubagentParams \<Rightarrow> string" where
  "spawnLabel ps = (case p_label ps of None \<Rightarrow> [] | Some l \<Rightarrow> trim l)"

definition spawnCleanup :: "SpawnSubagentParams \<Rightarrow> string" where
  "spawnCleanup ps =
     (if p_cleanup ps = Some ''keep'' \<or> p_cleanup ps = Some ''delete'' then the (p_cleanup ps)
      else ''keep'')"

definition spawnRunTimeoutSeconds :: "SpawnSubagentParams \<Rightarrow> int" where
  "spawnRunTimeoutSeconds ps = (case p_runTimeoutSeconds ps of None \<Rightarrow> 0 | Some t \<Rightarrow> max 0 t)"

definition spawnRequesterOrigin :: "env \<Rightarrow> SpawnSubagentContext \<Rightarrow> delivery_context option" where
  "spawnRequesterOrigin env ctx =
     normalizeDeliveryContext env (agentChannel ctx) (agentAccountId ctx) (agentTo ctx)
       (agentThreadId ctx)"

definition requesterInternalKey :: "env \<Rightarrow> config \<Rightarrow> SpawnSubagentContext \<Rightarrow> string" where
  "requesterInternalKey env cfg ctx =
     (let (mainKey, alias) = resolveMainSessionAlias env cfg in
      if truthyStr (agentSessionKey ctx)
      then resolveInternalSessionKey env (the (agentSessionKey ctx)) alias mainKey
      else alias)"

definition requesterDisplayKey_of :: "env \<Rightarrow> config \<Rightarrow> SpawnSubagentContext \<Rightarrow> string" where
  "requesterDisplayKey_of env cfg ctx =
     (let (mainKey, alias) = resolveMainSessionAlias env cfg in
      resolveDisplaySessionKey env (requesterInternalKey env cfg ctx) alias mainKey)"

definition callerDepth :: "env \<Rightarrow> config \<Rightarrow> SpawnSubagentContext \<Rightarrow> int" where
  "callerDepth env cfg ctx =
     getSubagentDepthFromSessionStore env (requesterInternalKey env cfg ctx) cfg"

definition maxSpawnDepth :: "config \<Rightarrow> int" where
  "maxSpawnDepth cfg =
     (case cfg_subagents cfg of None \<Rightarrow> 1
      | Some sd \<Rightarrow> (case sd_maxSpawnDepth sd of None \<Rightarrow> 1 | Some d \<Rightarrow> d))"

definition maxChildren :: "config \<Rightarrow> int" where
  "maxChildren cfg =
     (case cfg_subagents cfg of None \<Rightarrow> 5
      | Some sd \<Rightarrow> (case sd_maxChildrenPerAgent sd of None \<Rightarrow> 5 | Some d \<Rightarrow> d))"

definition activeChildren :: "env \<Rightarrow> config \<Rightarrow> SpawnSubagentContext \<Rightarrow> world \<Rightarrow> int" where
  "activeChildren env cfg ctx w = countActiveRunsForSession w (requesterInternalKey env cfg ctx)"

definition requesterAgentId :: "env \<Rightarrow> config \<Rightarrow> SpawnSubagentContext \<Rightarrow> string" where
  "requesterAgentId env cfg ctx =
     normalizeAgentId env
       (orElse (requesterAgentIdOverride ctx)
          (parseAgentSessionKey env (requesterInternalKey env cfg ctx)))"

definition targetAgentId ::
  "env \<Rightarrow> config \<Rightarrow> SpawnSubagentParams \<Rightarrow> SpawnSubagentContext \<Rightarrow> string" where
  "targetAgentId env cfg ps ctx =
     (if truthyStr (p_agentId ps) then normalizeAgentId env (p_agentId ps)
      else requesterAgentId env cfg ctx)"

definition allowAgents :: "env \<Rightarrow> config \<Rightarrow> SpawnSubagentContext \<Rightarrow> string list" where
  "allowAgents env cfg ctx =
     (case resolveAgentConfig env cfg (requesterAgentId env cfg ctx) of
        None \<Rightarrow> []
      | Some sa \<Rightarrow> (case sa_allowAgents sa of None \<Rightarrow> [] | Some l \<Rightarrow> l))"

definition allowAny :: "string list \<Rightarrow> bool" where
  "allowAny allow = list_ex (\<lambda>v. trim v = ''*'') allow"

definition allowSet :: "env \<Rightarrow> string list \<Rightarrow> string list" where
  "allowSet env allow =
     setOrder (map (\<lambda>v. toLowerCase (normalizeAgentId env (Some v)))
                 (filter (\<lambda>v. trim v \<noteq> [] \<and> trim v \<noteq> ''*'') allow))"

definition resolvedModel ::
  "env \<Rightarrow> config \<Rightarrow> SpawnSubagentParams \<Rightarrow> SpawnSubagentContext \<Rightarrow> string option" where
  "resolvedModel env cfg ps ctx =
     (let target = targetAgentId env cfg ps ctx;
          targetAgentConfig = resolveAgentConfig env cfg target;
          (rtProvider, rtModel) = resolveDefaultModelForAgent env cfg target
      in orElse (normalizeModelSelection (optStr (p_model ps)))
        (orElse (normalizeModelSelection
                   (case targetAgentConfig of None \<Rightarrow> JUndefined | Some sa \<Rightarrow> sa_model sa))
        (orElse (normalizeModelSelection
                   (case cfg_subagents cfg of None \<Rightarrow> JUndefined | Some sd \<Rightarrow> sd_model sd))
        (orElse (normalizeModelSelection (cfg_modelPrimary cfg))
                (normalizeModelSelection (JStr (rtProvider @ ''/'' @ rtModel)))))))"

definition resolvedThinkingDefaultRaw ::
  "env \<Rightarrow> config \<Rightarrow> SpawnSubagentParams \<Rightarrow> SpawnSubagentContext \<Rightarrow> string option" where
  "resolvedThinkingDefaultRaw env cfg ps ctx =
     orElse
       (readStringParam env
          (case resolveAgentConfig env cfg (targetAgentId env cfg ps ctx) of
             None \<Rightarrow> JUndefined | Some sa \<Rightarrow> sa_thinking sa))
       (readStringParam env
          (case cfg_subagents cfg of None \<Rightarrow> JUndefined | Some sd \<Rightarrow> sd_thinking sd))"

definition thinkingCandidateRaw ::
  "env \<Rightarrow> config \<Rightarrow> SpawnSubagentParams \<Rightarrow> SpawnSubagentContext \<Rightarrow> string option" where
  "thinkingCandidateRaw env cfg ps ctx =
     (if truthyStr (p_thinking ps) then p_thinking ps
      else resolvedThinkingDefaultRaw env cfg ps ctx)"

definition thinkingOverride ::
  "env \<Rightarrow> config \<Rightarrow> SpawnSubagentParams \<Rightarrow> SpawnSubagentContext \<Rightarrow> string option" where
  "thinkingOverride env cfg ps ctx =
     (if truthyStr (thinkingCandidateRaw env cfg ps ctx)
      then normalizeThinkLevel env (the (thinkingCandidateRaw env cfg ps ctx))
      else None)"

text \<open>The three rejection messages and the validation message, as the template literals
  of lines 126, 135, 156 and 188 build them.\<close>

definition depthForbiddenText :: "int \<Rightarrow> int \<Rightarrow> string" where
  "depthForbiddenText depth mx =
     ''sessions_spawn is not allowed at this depth (current depth: '' @ showInt depth
       @ '', max: '' @ showInt mx @ '')''"

definition childrenForbiddenText :: "int \<Rightarrow> int \<Rightarrow> string" where
  "childrenForbiddenText active mx =
     ''sessions_spawn has reached max active children for this session ('' @ showInt active
       @ ''/'' @ showInt mx @ '')''"

definition agentForbiddenText :: "string list \<Rightarrow> string" where
  "agentForbiddenText allowed =
     ''agentId is not allowed for sessions_spawn (allowed: ''
       @ (if length allowed > 0 then joinWith '', '' allowed else ''none'') @ '')''"

definition invalidThinkingText :: "string \<Rightarrow> string \<Rightarrow> string" where
  "invalidThinkingText raw hint =
     ''Invalid thinking level \"'' @ raw @ ''\". Use one of: '' @ hint @ ''.''"

definition forbidden :: "string \<Rightarrow> SpawnSubagentResult" where
  "forbidden msg =
     \<lparr>status = Forbidden, res_childSessionKey = None, res_runId = None, modelApplied = None,
      warning = None, error = Some msg\<rparr>"

definition failed :: "string \<Rightarrow> string option \<Rightarrow> string option \<Rightarrow> SpawnSubagentResult" where
  "failed msg childKey rid =
     \<lparr>status = Error, res_childSessionKey = childKey, res_runId = rid, modelApplied = None,
      warning = None, error = Some msg\<rparr>"


text \<open>
  \<open>spawnSubagentDirect\<close> (lines 81-322) in five parts, each a block of the source in
  its order: the launch of the first run and the registration (lines 252-321), the
  thinking patch (232-251), the model patch (209-231), the depth patch (193-207), and the
  admission checks and the validation (85-192). \<open>modelApplied\<close> and \<open>modelWarning\<close> are
  the two mutable locals of the source.
\<close>

definition spawnLabelOpt :: "SpawnSubagentParams \<Rightarrow> string option" where
  "spawnLabelOpt ps = (if spawnLabel ps = [] then None else Some (spawnLabel ps))"

definition threadIdText :: "delivery_context option \<Rightarrow> string option" where
  "threadIdText origin =
     (case origin of None \<Rightarrow> None
      | Some dc \<Rightarrow> (case dc_threadId dc of None \<Rightarrow> None
                    | Some (ThreadStr t) \<Rightarrow> Some t
                    | Some (ThreadNum n) \<Rightarrow> Some (showInt n)))"

definition agentLaunchCall ::
  "env \<Rightarrow> config \<Rightarrow> SpawnSubagentParams \<Rightarrow> SpawnSubagentContext \<Rightarrow> string \<Rightarrow> string \<Rightarrow> rpc_call" where
  "agentLaunchCall env cfg ps ctx childKey childIdem =
     (let requesterOrigin = spawnRequesterOrigin env ctx;
          childSystemPrompt =
            buildSubagentSystemPrompt env (agentSessionKey ctx) requesterOrigin childKey
              (spawnLabelOpt ps) (p_task ps) (callerDepth env cfg ctx + 1) (maxSpawnDepth cfg)
      in \<lparr>rpcMethod = ''agent'',
          params =
            [(''message'', JStr (p_task ps)),
             (''sessionKey'', JStr childKey),
             (''channel'', optStr (case requesterOrigin of None \<Rightarrow> None | Some dc \<Rightarrow> dc_channel dc)),
             (''to'', optStr (case requesterOrigin of None \<Rightarrow> None | Some dc \<Rightarrow> dc_to dc)),
             (''accountId'', optStr (case requesterOrigin of None \<Rightarrow> None | Some dc \<Rightarrow> dc_accountId dc)),
             (''threadId'', optStr (threadIdText requesterOrigin)),
             (''idempotencyKey'', JStr childIdem),
             (''deliver'', JBool False),
             (''lane'', JStr AGENT_LANE_SUBAGENT),
             (''extraSystemPrompt'', JStr childSystemPrompt),
             (''thinking'', optStr (thinkingOverride env cfg ps ctx)),
             (''timeout'', JNum (spawnRunTimeoutSeconds ps)),
             (''label'', optStr (spawnLabelOpt ps)),
             (''spawnedBy'', JStr (requesterInternalKey env cfg ctx)),
             (''groupId'', optStr (agentGroupId ctx)),
             (''groupChannel'', optStr (agentGroupChannel ctx)),
             (''groupSpace'', optStr (agentGroupSpace ctx))],
          timeoutMs = Some 10000\<rparr>)"

text \<open>The run id of a launch (lines 288-290 and, in the command surface, 581-584): the
  \<open>runId\<close> of the response when it is a non-empty string, the idempotency key otherwise.\<close>

definition launchedRunId :: "json \<Rightarrow> string \<Rightarrow> string" where
  "launchedRunId response idem =
     (case getField response ''runId'' of
        JStr r \<Rightarrow> if r \<noteq> [] then r else idem
      | _ \<Rightarrow> idem)"

definition spawnLaunchRun ::
  "env \<Rightarrow> config \<Rightarrow> SpawnSubagentParams \<Rightarrow> SpawnSubagentContext \<Rightarrow> string \<Rightarrow> bool
     \<Rightarrow> string option \<Rightarrow> world \<Rightarrow> SpawnSubagentResult \<times> world" where
  "spawnLaunchRun env cfg ps ctx childKey mApplied mWarning w =
     (let (childIdem, w1) = randomUUID env w;
          (response, w2) = callGateway env (agentLaunchCall env cfg ps ctx childKey childIdem) w1
      in case response of
           Inl err \<Rightarrow> (failed (errorMessageText err) (Some childKey) (Some childIdem), w2)
         | Inr resp \<Rightarrow>
             (let childRunId = launchedRunId resp childIdem
              in (\<lparr>status = Accepted, res_childSessionKey = Some childKey,
                    res_runId = Some childRunId,
                    modelApplied =
                      (if truthyStr (resolvedModel env cfg ps ctx) then Some mApplied else None),
                    warning = mWarning, error = None\<rparr>,
                  registerSubagentRun childRunId childKey (requesterInternalKey env cfg ctx)
                    (spawnRequesterOrigin env ctx) (requesterDisplayKey_of env cfg ctx)
                    (p_task ps) (spawnCleanup ps) (spawnLabelOpt ps)
                    (resolvedModel env cfg ps ctx) (spawnRunTimeoutSeconds ps) w2)))"

definition thinkingPatchCall :: "string \<Rightarrow> string \<Rightarrow> rpc_call" where
  "thinkingPatchCall childKey level =
     \<lparr>rpcMethod = ''sessions.patch'',
      params = [(''key'', JStr childKey),
                (''thinkingLevel'', if level = ''off'' then JNull else JStr level)],
      timeoutMs = Some 10000\<rparr>"

definition spawnPatchThinking ::
  "env \<Rightarrow> config \<Rightarrow> SpawnSubagentParams \<Rightarrow> SpawnSubagentContext \<Rightarrow> string \<Rightarrow> bool
     \<Rightarrow> string option \<Rightarrow> world \<Rightarrow> SpawnSubagentResult \<times> world" where
  "spawnPatchThinking env cfg ps ctx childKey mApplied mWarning w =
     (case thinkingOverride env cfg ps ctx of
        None \<Rightarrow> spawnLaunchRun env cfg ps ctx childKey mApplied mWarning w
      | Some level \<Rightarrow>
          (let (response, w1) = callGateway env (thinkingPatchCall childKey level) w
           in case response of
                Inl err \<Rightarrow> (failed (errorMessageText err) (Some childKey) None, w1)
              | Inr _ \<Rightarrow> spawnLaunchRun env cfg ps ctx childKey mApplied mWarning w1))"

definition modelPatchCall :: "string \<Rightarrow> string \<Rightarrow> rpc_call" where
  "modelPatchCall childKey mdl =
     \<lparr>rpcMethod = ''sessions.patch'',
      params = [(''key'', JStr childKey), (''model'', JStr mdl)],
      timeoutMs = Some 10000\<rparr>"

definition recoverable :: "string \<Rightarrow> bool" where
  "recoverable messageText =
     (includesStr messageText ''invalid model'' \<or> includesStr messageText ''model not allowed'')"

definition spawnPatchModel ::
  "env \<Rightarrow> config \<Rightarrow> SpawnSubagentParams \<Rightarrow> SpawnSubagentContext \<Rightarrow> string \<Rightarrow> world
     \<Rightarrow> SpawnSubagentResult \<times> world" where
  "spawnPatchModel env cfg ps ctx childKey w =
     (if truthyStr (resolvedModel env cfg ps ctx) then
        (let (response, w1) =
               callGateway env (modelPatchCall childKey (the (resolvedModel env cfg ps ctx))) w
         in case response of
              Inr _ \<Rightarrow> spawnPatchThinking env cfg ps ctx childKey True None w1
            | Inl err \<Rightarrow>
                (let messageText = errorMessageText err
                 in if \<not> recoverable messageText
                    then (failed messageText (Some childKey) None, w1)
                    else spawnPatchThinking env cfg ps ctx childKey False (Some messageText) w1))
      else spawnPatchThinking env cfg ps ctx childKey False None w)"

definition depthPatchCall :: "string \<Rightarrow> int \<Rightarrow> rpc_call" where
  "depthPatchCall childKey childDepth =
     \<lparr>rpcMethod = ''sessions.patch'',
      params = [(''key'', JStr childKey), (''spawnDepth'', JNum childDepth)],
      timeoutMs = Some 10000\<rparr>"

definition spawnPatchDepth ::
  "env \<Rightarrow> config \<Rightarrow> SpawnSubagentParams \<Rightarrow> SpawnSubagentContext \<Rightarrow> string \<Rightarrow> world
     \<Rightarrow> SpawnSubagentResult \<times> world" where
  "spawnPatchDepth env cfg ps ctx childKey w =
     (let (response, w1) =
            callGateway env (depthPatchCall childKey (callerDepth env cfg ctx + 1)) w
      in case response of
           Inl err \<Rightarrow> (failed (errorMessageText err) (Some childKey) None, w1)
         | Inr _ \<Rightarrow> spawnPatchModel env cfg ps ctx childKey w1)"

text \<open>The allowlist check of lines 143-152.\<close>

definition agentAllowed ::
  "env \<Rightarrow> config \<Rightarrow> SpawnSubagentParams \<Rightarrow> SpawnSubagentContext \<Rightarrow> bool" where
  "agentAllowed env cfg ps ctx =
     (targetAgentId env cfg ps ctx = requesterAgentId env cfg ctx
      \<or> allowAny (allowAgents env cfg ctx)
      \<or> toLowerCase (targetAgentId env cfg ps ctx) \<in> set (allowSet env (allowAgents env cfg ctx)))"

definition spawnSubagentDirect ::
  "env \<Rightarrow> config \<Rightarrow> SpawnSubagentParams \<Rightarrow> SpawnSubagentContext \<Rightarrow> world
     \<Rightarrow> SpawnSubagentResult \<times> world" where
  "spawnSubagentDirect env cfg ps ctx w =
     (if callerDepth env cfg ctx \<ge> maxSpawnDepth cfg then
        (forbidden (depthForbiddenText (callerDepth env cfg ctx) (maxSpawnDepth cfg)), w)
      else if activeChildren env cfg ctx w \<ge> maxChildren cfg then
        (forbidden (childrenForbiddenText (activeChildren env cfg ctx w) (maxChildren cfg)), w)
      else if \<not> agentAllowed env cfg ps ctx then
        (forbidden (agentForbiddenText (allowSet env (allowAgents env cfg ctx))), w)
      else
        (let (uuid, w1) = randomUUID env w;
             childSessionKey = ''agent:'' @ targetAgentId env cfg ps ctx @ '':subagent:'' @ uuid
         in if truthyStr (thinkingCandidateRaw env cfg ps ctx)
               \<and> \<not> truthyStr (thinkingOverride env cfg ps ctx)
            then (let (provider, mdl) = splitModelRef (resolvedModel env cfg ps ctx)
                  in (failed (invalidThinkingText (the (thinkingCandidateRaw env cfg ps ctx))
                                (formatThinkingLevels env provider mdl)) None None, w1))
            else spawnPatchDepth env cfg ps ctx childSessionKey w1))"

section \<open>Subagent command surface (\<open>src/unnamed/part_005\<close>)\<close>

definition COMMAND :: string where "COMMAND = ''/subagents''"
definition COMMAND_KILL :: string where "COMMAND_KILL = ''/kill''"
definition COMMAND_STEER :: string where "COMMAND_STEER = ''/steer''"
definition COMMAND_TELL :: string where "COMMAND_TELL = ''/tell''"

definition ACTIONS :: "string list" where
  "ACTIONS = [''list'', ''kill'', ''log'', ''send'', ''steer'', ''info'', ''spawn'', ''help'']"

definition RECENT_WINDOW_MINUTES :: int where "RECENT_WINDOW_MINUTES = 30"
definition SUBAGENT_TASK_PREVIEW_MAX :: nat where "SUBAGENT_TASK_PREVIEW_MAX = 110"
definition STEER_ABORT_SETTLE_TIMEOUT_MS :: int where "STEER_ABORT_SETTLE_TIMEOUT_MS = 5000"

text \<open>The symbols the replies start with, as the bytes of their UTF-8 encoding: the warning
  sign, the scroll, the hourglass and the check mark.\<close>

definition WARNING_SIGN :: string where
  "WARNING_SIGN = [CHR 0xE2, CHR 0x9A, CHR 0xA0, CHR 0xEF, CHR 0xB8, CHR 0x8F]"
definition SCROLL_SIGN :: string where
  "SCROLL_SIGN = [CHR 0xF0, CHR 0x9F, CHR 0x93, CHR 0x9C]"
definition HOURGLASS_SIGN :: string where
  "HOURGLASS_SIGN = [CHR 0xE2, CHR 0x8F, CHR 0xB3]"
definition CHECK_SIGN :: string where
  "CHECK_SIGN = [CHR 0xE2, CHR 0x9C, CHR 0x85]"

definition newline :: string where "newline = [CHR 0x0A]"

text \<open>\<open>s.split(/\s+/).filter(Boolean)\<close>: the maximal runs of characters that are not white
  space.\<close>

function splitWs :: "string \<Rightarrow> string list" where
  "splitWs [] = []"
| "splitWs (c # cs) =
     (case leadingSpace (c # cs) of
        Some p \<Rightarrow> splitWs (drop (length p) (c # cs))
      | None \<Rightarrow>
          if cs = [] \<or> leadingSpace cs \<noteq> None then [c] # splitWs cs
          else (case splitWs cs of [] \<Rightarrow> [[c]] | t # ts \<Rightarrow> (c # t) # ts))"
  by pat_completeness auto
termination
proof (relation "measure length")
  show "wf (measure length)" by simp
next
  fix c cs p
  assume "leadingSpace (c # cs) = Some p"
  then have "p \<in> set whiteSpace"
    by (auto simp add: leadingSpace_def find_Some_iff)
  then have "p \<noteq> []"
    by (auto simp add: whiteSpace_def)
  then show "(drop (length p) (c # cs), c # cs) \<in> measure length"
    by (cases p) auto
qed simp_all

declare splitWs.simps [simp del]

text \<open>\<open>compactLine\<close> (lines 56-58): \<open>value.replace(/\s+/g, " ").trim()\<close>, which leaves the
  runs of non-space characters joined by single spaces.\<close>

definition compactLine :: "string \<Rightarrow> string" where
  "compactLine v = joinWith '' '' (splitWs v)"

definition formatTaskPreview :: "env \<Rightarrow> string \<Rightarrow> string" where
  "formatTaskPreview env v = truncateLine env (compactLine v) SUBAGENT_TASK_PREVIEW_MAX"

text \<open>\<open>typeof entry?.k === "string" ? entry.k.trim() : ""\<close> (lines 73-82).\<close>

definition trimmedStringField :: "json \<Rightarrow> string \<Rightarrow> string" where
  "trimmedStringField entry k = (case getField entry k of JStr v \<Rightarrow> trim v | _ \<Rightarrow> [])"

definition combineModel :: "string \<Rightarrow> string \<Rightarrow> string" where
  "combineModel mdl provider =
     (if CHR ''/'' \<in> set mdl then mdl
      else if mdl \<noteq> [] \<and> provider \<noteq> [] then provider @ ''/'' @ mdl
      else mdl)"

text \<open>\<open>resolveModelDisplay\<close> (lines 64-100); the last step returns what follows the last
  slash when that is not empty.\<close>

definition resolveModelDisplay :: "json \<Rightarrow> string option \<Rightarrow> string" where
  "resolveModelDisplay entry fallbackModel =
     (let combined0 = combineModel (trimmedStringField entry ''model'')
                        (trimmedStringField entry ''modelProvider'');
          combined1 = (if combined0 = []
                       then combineModel (trimmedStringField entry ''modelOverride'')
                              (trimmedStringField entry ''providerOverride'')
                       else combined0);
          combined = (if combined1 = []
                      then (case fallbackModel of None \<Rightarrow> [] | Some f \<Rightarrow> trim f)
                      else combined1)
      in if combined = [] then ''model n/a''
         else if CHR ''/'' \<in> set combined \<and> last (splitOn CHR ''/'' combined) \<noteq> []
         then last (splitOn CHR ''/'' combined)
         else combined)"

definition resolveDisplayStatus :: "env \<Rightarrow> SubagentRunRecord \<Rightarrow> string" where
  "resolveDisplayStatus env entry =
     (if formatRunStatus env entry = ''error'' then ''failed'' else formatRunStatus env entry)"

text \<open>\<open>resolveRequesterSessionKey\<close> (lines 121-128), on the fields of the handler's
  parameters that the command surface reads.\<close>

record command_params =
  commandBodyNormalized :: string
  isAuthorizedSender :: bool
  cmd_sessionKey :: "string option"
  cmd_CommandTargetSessionKey :: "string option"
  cmd_channel :: "string option"
  cmd_to :: "string option"
  cmd_AccountId :: "string option"
  cmd_MessageThreadId :: "thread_id option"
  cmd_cfg :: config

definition resolveRequesterSessionKey :: "env \<Rightarrow> command_params \<Rightarrow> string option" where
  "resolveRequesterSessionKey env ps =
     (let raw = (if truthyStr (map_option trim (cmd_sessionKey ps))
                 then map_option trim (cmd_sessionKey ps)
                 else map_option trim (cmd_CommandTargetSessionKey ps))
      in if \<not> truthyStr raw then None
         else (let (mainKey, alias) = resolveMainSessionAlias env (cmd_cfg ps)
               in Some (resolveInternalSessionKey env (the raw) alias mainKey)))"

text \<open>
  Modelled from the spec: \<open>sortSubagentRuns\<close> is defined in \<open>subagents-utils\<close>, which is not
  among the sources. The specification orders runs newest-first, \<open>"last"\<close> being the most
  recently started run: a stable sort by decreasing start time, the creation time standing
  in for a run that has not started.
\<close>

definition runStart :: "SubagentRunRecord \<Rightarrow> int" where
  "runStart r = (case startedAt r of Some t \<Rightarrow> t | None \<Rightarrow> createdAt r)"

definition sortSubagentRuns :: "SubagentRunRecord list \<Rightarrow> SubagentRunRecord list" where
  "sortSubagentRuns runs = sort_key (\<lambda>r. - runStart r) runs"

text \<open>The two filters of lines 145-146 and 306, 323: \<open>!entry.endedAt\<close> and
  \<open>!!entry.endedAt && (entry.endedAt ?? 0) >= recentCutoff\<close>.\<close>

definition endedAtTruthy :: "SubagentRunRecord \<Rightarrow> bool" where
  "endedAtTruthy r = (case endedAt r of None \<Rightarrow> False | Some t \<Rightarrow> t \<noteq> 0)"

definition recentCutoff :: "int \<Rightarrow> int" where
  "recentCutoff now = now - RECENT_WINDOW_MINUTES * 60000"

definition isRecent :: "int \<Rightarrow> SubagentRunRecord \<Rightarrow> bool" where
  "isRecent cutoff r = (endedAtTruthy r \<and> (case endedAt r of None \<Rightarrow> 0 | Some t \<Rightarrow> t) \<ge> cutoff)"

definition numericOrder :: "int \<Rightarrow> SubagentRunRecord list \<Rightarrow> SubagentRunRecord list" where
  "numericOrder now runs =
     (let sorted = sortSubagentRuns runs
      in filter (\<lambda>entry. \<not> endedAtTruthy entry) sorted
         @ filter (isRecent (recentCutoff now)) sorted)"

record SubagentTargetResolution =
  tr_entry :: "SubagentRunRecord option"
  tr_error :: "string option"

definition targetEntry :: "SubagentRunRecord \<Rightarrow> SubagentTargetResolution" where
  "targetEntry e = \<lparr>tr_entry = Some e, tr_error = None\<rparr>"

definition targetError :: "string \<Rightarrow> SubagentTargetResolution" where
  "targetError msg = \<lparr>tr_entry = None, tr_error = Some msg\<rparr>"

text \<open>\<open>resolveSubagentTarget\<close> (lines 130-184); \<open>now\<close> is the reading of \<open>Date.now()\<close> at
  line 143.\<close>

definition resolveSubagentTarget ::
  "env \<Rightarrow> int \<Rightarrow> SubagentRunRecord list \<Rightarrow> string option \<Rightarrow> SubagentTargetResolution" where
  "resolveSubagentTarget env now runs token =
     (let trimmed = (case token of None \<Rightarrow> [] | Some t \<Rightarrow> trim t) in
      if trimmed = [] then targetError ''Missing subagent id.''
      else if trimmed = ''last'' then
        \<lparr>tr_entry = (case sortSubagentRuns runs of [] \<Rightarrow> None | e # _ \<Rightarrow> Some e),
         tr_error = None\<rparr>
      else if allDigits trimmed then
        (let idx = parseDigits trimmed in
         if idx \<le> 0 \<or> idx > length (numericOrder now runs)
         then targetError (''Invalid subagent index: '' @ trimmed)
         else targetEntry (numericOrder now runs ! (idx - 1)))
      else if CHR '':'' \<in> set trimmed then
        (case find (\<lambda>entry. childSessionKey entry = trimmed) runs of
           Some m \<Rightarrow> targetEntry m
         | None \<Rightarrow> targetError (''Unknown subagent session: '' @ trimmed))
      else
        (let lowered = toLowerCase trimmed;
             byLabel = filter (\<lambda>entry. toLowerCase (formatRunLabel env entry None) = lowered) runs;
             byLabelPrefix =
               filter (\<lambda>entry. startsWith (toLowerCase (formatRunLabel env entry None)) lowered) runs;
             byRunId = filter (\<lambda>entry. startsWith (runId entry) trimmed) runs
         in if length byLabel = 1 then targetEntry (hd byLabel)
            else if length byLabel > 1 then targetError (''Ambiguous subagent label: '' @ trimmed)
            else if length byLabelPrefix = 1 then targetEntry (hd byLabelPrefix)
            else if length byLabelPrefix > 1
              then targetError (''Ambiguous subagent label prefix: '' @ trimmed)
            else if length byRunId = 1 then targetEntry (hd byRunId)
            else if length byRunId > 1 then targetError (''Ambiguous run id prefix: '' @ trimmed)
            else targetError (''Unknown subagent id: '' @ trimmed)))"

definition buildSubagentsHelp :: string where
  "buildSubagentsHelp =
     joinWith newline
       [''Subagents'',
        ''Usage:'',
        ''- /subagents list'',
        ''- /subagents kill <id|#|all>'',
        ''- /subagents log <id|#> [limit] [tools]'',
        ''- /subagents info <id|#>'',
        ''- /subagents send <id|#> <message>'',
        ''- /subagents steer <id|#> <message>'',
        ''- /subagents spawn <agentId> <task> [--model <model>] [--thinking <level>]'',
        ''- /kill <id|#|all>'',
        ''- /steer <id|#> <message>'',
        ''- /tell <id|#> <message>'',
        [],
        ''Ids: use the list index (#), runId/session prefix, label, or full session key.'']"

text \<open>What the handler gives back: the value it resolves to (\<open>null\<close> is \<open>None\<close>), or the
  exception it rejects with when a gateway call outside a \<open>try\<close> block throws. The
  actions \<open>kill\<close> and \<open>info\<close> are outside this model.\<close>

record CommandHandlerResult =
  shouldContinue :: bool
  reply :: "string option"

datatype handler_outcome =
    Returned "CommandHandlerResult option"
  | Thrown thrown
  | NotModelled

definition replyWith :: "string \<Rightarrow> handler_outcome" where
  "replyWith txt = Returned (Some \<lparr>shouldContinue = False, reply = Some txt\<rparr>)"

definition templateOpt :: "string option \<Rightarrow> string" where
  "templateOpt v = (case v of None \<Rightarrow> ''undefined'' | Some t \<Rightarrow> t)"

subsection \<open>The \<open>list\<close> action (lines 299-355)\<close>

text \<open>One numbered line, as both \<open>map\<close> callbacks build it (lines 307-321 and 324-340);
  they differ in the duration shown only.\<close>

definition listLine :: "env \<Rightarrow> nat \<Rightarrow> SubagentRunRecord \<Rightarrow> int \<Rightarrow> string" where
  "listLine env index entry runtimeMs =
     (let sessionEntry = loadSessionEntry env (childSessionKey entry);
          usageText = formatTokenUsageDisplay env sessionEntry;
          lbl = truncateLine env (formatRunLabel env entry (Some 48)) 48;
          tsk = formatTaskPreview env (task entry);
          runtime = formatDurationCompact env runtimeMs;
          st = resolveDisplayStatus env entry
      in showNat index @ ''. '' @ lbl @ '' ('' @ resolveModelDisplay sessionEntry (model entry)
           @ '', '' @ templateOpt runtime @ (if usageText \<noteq> [] then '', '' @ usageText else [])
           @ '') '' @ st
           @ (if toLowerCase tsk \<noteq> toLowerCase lbl then '' - '' @ tsk else []))"

definition activeLine :: "env \<Rightarrow> int \<Rightarrow> nat \<Rightarrow> SubagentRunRecord \<Rightarrow> string" where
  "activeLine env now index entry = listLine env index entry (now - runStart entry)"

definition recentLine :: "env \<Rightarrow> int \<Rightarrow> nat \<Rightarrow> SubagentRunRecord \<Rightarrow> string" where
  "recentLine env now index entry =
     listLine env index entry
       ((case endedAt entry of None \<Rightarrow> now | Some t \<Rightarrow> t) - runStart entry)"

text \<open>\<open>entries.map(callback)\<close> where the callback reads the counter \<open>index\<close> and then
  increments it: the lines, and the counter afterwards.\<close>

fun numberedLines ::
  "(nat \<Rightarrow> SubagentRunRecord \<Rightarrow> string) \<Rightarrow> nat \<Rightarrow> SubagentRunRecord list \<Rightarrow> string list \<times> nat" where
  "numberedLines f index [] = ([], index)"
| "numberedLines f index (entry # entries) =
     (let (ls, index') = numberedLines f (Suc index) entries in (f index entry # ls, index'))"

definition listActiveLines :: "env \<Rightarrow> int \<Rightarrow> SubagentRunRecord list \<Rightarrow> string list \<times> nat" where
  "listActiveLines env now runs =
     numberedLines (activeLine env now) 1
       (filter (\<lambda>entry. \<not> endedAtTruthy entry) (sortSubagentRuns runs))"

definition listRecentLines :: "env \<Rightarrow> int \<Rightarrow> SubagentRunRecord list \<Rightarrow> string list \<times> nat" where
  "listRecentLines env now runs =
     numberedLines (recentLine env now) (snd (listActiveLines env now runs))
       (filter (isRecent (recentCutoff now)) (sortSubagentRuns runs))"

definition listText :: "env \<Rightarrow> int \<Rightarrow> SubagentRunRecord list \<Rightarrow> string" where
  "listText env now runs =
     (let activeLines = fst (listActiveLines env now runs);
          recentLines = fst (listRecentLines env now runs)
      in joinWith newline
           ([''active subagents:'', ''-----'',
             if length activeLines = 0 then ''(none)'' else joinWith newline activeLines]
            @ [[], ''recent subagents (last '' @ showInt RECENT_WINDOW_MINUTES @ ''m):'', ''-----'']
            @ [if length recentLines = 0 then ''(none)'' else joinWith newline recentLines]))"

subsection \<open>The \<open>log\<close> action (lines 466-493)\<close>

text \<open>\<open>extractMessageText\<close> (lines 210-217) and \<open>formatLogLines\<close> (lines 219-230). Reading
  \<open>message.role\<close> of \<open>null\<close> or \<open>undefined\<close> throws a \<open>TypeError\<close>.\<close>

definition extractMessageText :: "env \<Rightarrow> json \<Rightarrow> thrown + (string \<times> string) option" where
  "extractMessageText env message =
     (if message = JNull then Inl (ThrownError ''Cannot read properties of null (reading 'role')'')
      else if message = JUndefined
        then Inl (ThrownError ''Cannot read properties of undefined (reading 'role')'')
      else (let role = (case getField message ''role'' of JStr r \<Rightarrow> r | _ \<Rightarrow> []);
                shouldSanitize = (role = ''assistant'');
                txt = extractTextFromChatContent env (getField message ''content'') shouldSanitize
            in Inr (if truthyStr txt then Some (role, the txt) else None)))"

fun formatLogLines :: "env \<Rightarrow> json list \<Rightarrow> thrown + string list" where
  "formatLogLines env [] = Inr []"
| "formatLogLines env (msg # msgs) =
     (case extractMessageText env msg of
        Inl err \<Rightarrow> Inl err
      | Inr None \<Rightarrow> formatLogLines env msgs
      | Inr (Some (role, txt)) \<Rightarrow>
          (case formatLogLines env msgs of
             Inl err \<Rightarrow> Inl err
           | Inr ls \<Rightarrow> Inr (((if role = ''assistant'' then ''Assistant'' else ''User'') @ '': '' @ txt) # ls)))"

definition includeTools :: "string list \<Rightarrow> bool" where
  "includeTools restTokens = list_ex (\<lambda>token. toLowerCase token = ''tools'') restTokens"

text \<open>Lines 472-473: the first token of \<open>restTokens\<close> that matches \<open>/^\d+$/\<close>, clamped.\<close>

definition logLimit :: "string list \<Rightarrow> int" where
  "logLimit restTokens =
     (case find allDigits restTokens of
        Some limitToken \<Rightarrow> min 200 (max 1 (int (parseDigits limitToken)))
      | None \<Rightarrow> 20)"

definition historyCall :: "string \<Rightarrow> int \<Rightarrow> rpc_call" where
  "historyCall sessKey lim =
     \<lparr>rpcMethod = ''chat.history'',
      params = [(''sessionKey'', JStr sessKey), (''limit'', JNum lim)],
      timeoutMs = None\<rparr>"

text \<open>\<open>Array.isArray(history?.messages) ? history.messages : []\<close>.\<close>

definition historyMessages :: "json \<Rightarrow> json list" where
  "historyMessages history = (case getField history ''messages'' of JArr ms \<Rightarrow> ms | _ \<Rightarrow> [])"

definition unresolvedReply :: "SubagentTargetResolution \<Rightarrow> handler_outcome" where
  "unresolvedReply resolved =
     replyWith (WARNING_SIGN @ '' ''
                @ (case tr_error resolved of None \<Rightarrow> ''Unknown subagent.'' | Some e \<Rightarrow> e))"

definition handleLog ::
  "env \<Rightarrow> string list \<Rightarrow> SubagentRunRecord list \<Rightarrow> world \<Rightarrow> handler_outcome \<times> world" where
  "handleLog env restTokens runs w =
     (case restTokens of
        [] \<Rightarrow> (replyWith (SCROLL_SIGN @ '' Usage: /subagents log <id|#> [limit]''), w)
      | target # _ \<Rightarrow>
          if target = [] then
            (replyWith (SCROLL_SIGN @ '' Usage: /subagents log <id|#> [limit]''), w)
          else
          (let limit = logLimit restTokens;
               resolved = resolveSubagentTarget env (nowMs w) runs (Some target)
           in case tr_entry resolved of
                None \<Rightarrow> (unresolvedReply resolved, w)
              | Some entry \<Rightarrow>
                  (let (history, w1) = callGateway env (historyCall (childSessionKey entry) limit) w
                   in case history of
                        Inl err \<Rightarrow> (Thrown err, w1)
                      | Inr h \<Rightarrow>
                          (let rawMessages = historyMessages h;
                               filtered = (if includeTools restTokens then rawMessages
                                           else stripToolMessages env rawMessages);
                               header = SCROLL_SIGN @ '' Subagent log: '' @ formatRunLabel env entry None
                           in case formatLogLines env filtered of
                                Inl err \<Rightarrow> (Thrown err, w1)
                              | Inr ls \<Rightarrow>
                                  (if length ls = 0
                                   then (replyWith (header @ newline @ ''(no messages)''), w1)
                                   else (replyWith (joinWith newline (header # ls)), w1))))))"

subsection \<open>The \<open>send\<close> and \<open>steer\<close> actions (lines 495-647)\<close>

text \<open>The session id of lines 528-531: the trimmed \<open>sessionId\<close> of the child's session
  entry when it is a string that is not blank.\<close>

definition targetSessionId :: "env \<Rightarrow> SubagentRunRecord \<Rightarrow> string option" where
  "targetSessionId env entry =
     (case getField (loadSessionEntry env (childSessionKey entry)) ''sessionId'' of
        JStr sid \<Rightarrow> if trim sid \<noteq> [] then Some (trim sid) else None
      | _ \<Rightarrow> None)"

definition abortEmbeddedPiRun :: "string \<Rightarrow> world \<Rightarrow> world" where
  "abortEmbeddedPiRun sid w = w\<lparr>trace := trace w @ [AbortEmbeddedPiRun sid]\<rparr>"

definition clearSessionQueues :: "string option list \<Rightarrow> world \<Rightarrow> world" where
  "clearSessionQueues keys w = w\<lparr>trace := trace w @ [ClearSessionQueues keys]\<rparr>"

definition settleWaitCall :: "string \<Rightarrow> rpc_call" where
  "settleWaitCall rid =
     \<lparr>rpcMethod = ''agent.wait'',
      params = [(''runId'', JStr rid), (''timeoutMs'', JNum STEER_ABORT_SETTLE_TIMEOUT_MS)],
      timeoutMs = Some (STEER_ABORT_SETTLE_TIMEOUT_MS + 2000)\<rparr>"

text \<open>Lines 533-562: mark the run, interrupt it, drain its queues, and wait for it to
  settle; a failure of the wait is caught and ignored.\<close>

definition steerInterrupt :: "env \<Rightarrow> SubagentRunRecord \<Rightarrow> world \<Rightarrow> world" where
  "steerInterrupt env entry w =
     (let w1 = markSubagentRunForSteerRestart (runId entry) w;
          w2 = (case targetSessionId env entry of
                  Some sid \<Rightarrow> abortEmbeddedPiRun sid w1
                | None \<Rightarrow> w1);
          w3 = clearSessionQueues [Some (childSessionKey entry), targetSessionId env entry] w2
      in snd (callGateway env (settleWaitCall (runId entry)) w3))"

definition sendCall :: "env \<Rightarrow> SubagentRunRecord \<Rightarrow> string \<Rightarrow> string \<Rightarrow> rpc_call" where
  "sendCall env entry message idempotencyKey =
     \<lparr>rpcMethod = ''agent'',
      params =
        [(''message'', JStr message),
         (''sessionKey'', JStr (childSessionKey entry)),
         (''sessionId'', optStr (targetSessionId env entry)),
         (''idempotencyKey'', JStr idempotencyKey),
         (''deliver'', JBool False),
         (''channel'', JStr (INTERNAL_MESSAGE_CHANNEL env)),
         (''lane'', JStr AGENT_LANE_SUBAGENT),
         (''timeout'', JNum 0)],
      timeoutMs = Some 10000\<rparr>"

definition sendWaitCall :: "string \<Rightarrow> rpc_call" where
  "sendWaitCall rid =
     \<lparr>rpcMethod = ''agent.wait'',
      params = [(''runId'', JStr rid), (''timeoutMs'', JNum 30000)],
      timeoutMs = Some (30000 + 2000)\<rparr>"

definition truthyJson :: "json \<Rightarrow> bool" where
  "truthyJson v =
     (case v of JUndefined \<Rightarrow> False | JNull \<Rightarrow> False | JBool b \<Rightarrow> b | JNum n \<Rightarrow> n \<noteq> 0
      | JStr t \<Rightarrow> t \<noteq> [] | JArr _ \<Rightarrow> True | JObj _ \<Rightarrow> True)"

text \<open>Lines 611-646: what \<open>send\<close> does after the launch. Neither gateway call is inside a
  \<open>try\<close> block.\<close>

definition sendAwaitReply ::
  "env \<Rightarrow> SubagentRunRecord \<Rightarrow> string \<Rightarrow> world \<Rightarrow> handler_outcome \<times> world" where
  "sendAwaitReply env entry rid w =
     (let (wait, w1) = callGateway env (sendWaitCall rid) w
      in case wait of
           Inl err \<Rightarrow> (Thrown err, w1)
         | Inr wt \<Rightarrow>
             if getField wt ''status'' = JStr ''timeout'' then
               (replyWith (HOURGLASS_SIGN @ '' Subagent still running (run '' @ take 8 rid @ '').''), w1)
             else if getField wt ''status'' = JStr ''error'' then
               (replyWith (WARNING_SIGN @ '' Subagent error: ''
                           @ (case getField wt ''error'' of JStr e \<Rightarrow> e | _ \<Rightarrow> ''unknown error'')
                           @ '' (run '' @ take 8 rid @ '').''), w1)
             else
               (let (history, w2) = callGateway env (historyCall (childSessionKey entry) 50) w1
                in case history of
                     Inl err \<Rightarrow> (Thrown err, w2)
                   | Inr h \<Rightarrow>
                       (let filtered = stripToolMessages env (historyMessages h);
                            replyText =
                              (if length filtered > 0 \<and> truthyJson (last filtered)
                               then extractAssistantText env (last filtered) else None)
                        in (replyWith
                              (case replyText of
                                 Some t \<Rightarrow> t
                               | None \<Rightarrow> CHECK_SIGN @ '' Sent to '' @ formatRunLabel env entry None
                                          @ '' (run '' @ take 8 rid @ '').''), w2))))"

definition sendSteerUsage :: "bool \<Rightarrow> string \<Rightarrow> string" where
  "sendSteerUsage steerRequested handledPrefix =
     (if steerRequested
      then (if handledPrefix = COMMAND then ''Usage: /subagents steer <id|#> <message>''
            else ''Usage: '' @ handledPrefix @ '' <id|#> <message>'')
      else ''Usage: /subagents send <id|#> <message>'')"

text \<open>Lines 564-609, for a resolved target: the launch of the new run, the rollback when
  the launch fails, and the swap of the tracked run when a steer succeeds.\<close>

definition launchSendOrSteer ::
  "env \<Rightarrow> bool \<Rightarrow> SubagentRunRecord \<Rightarrow> string \<Rightarrow> world \<Rightarrow> handler_outcome \<times> world" where
  "launchSendOrSteer env steerRequested entry message w =
     (let (idempotencyKey, w1) = randomUUID env w;
          (response, w2) = callGateway env (sendCall env entry message idempotencyKey) w1
      in case response of
           Inl err \<Rightarrow>
             (replyWith (''send failed: '' @ errorMessageText err),
              if steerRequested then clearSubagentRunSteerRestart (runId entry) w2 else w2)
         | Inr resp \<Rightarrow>
             (let rid = launchedRunId resp idempotencyKey
              in if steerRequested then
                   (replyWith (''steered '' @ formatRunLabel env entry None @ '' (run ''
                               @ take 8 rid @ '').''),
                    replaceSubagentRunAfterSteer (runId entry) rid entry
                      (case runTimeoutSeconds entry of None \<Rightarrow> 0 | Some t \<Rightarrow> t) w2)
                 else sendAwaitReply env entry rid w2))"

definition handleSendOrSteer ::
  "env \<Rightarrow> bool \<Rightarrow> string \<Rightarrow> string list \<Rightarrow> SubagentRunRecord list \<Rightarrow> world
     \<Rightarrow> handler_outcome \<times> world" where
  "handleSendOrSteer env steerRequested handledPrefix restTokens runs w =
     (let target = (case restTokens of [] \<Rightarrow> None | t # _ \<Rightarrow> Some t);
          message = trim (joinWith '' '' (drop 1 restTokens))
      in if \<not> truthyStr target \<or> message = [] then
           (replyWith (sendSteerUsage steerRequested handledPrefix), w)
         else
           (let resolved = resolveSubagentTarget env (nowMs w) runs target
            in case tr_entry resolved of
                 None \<Rightarrow> (unresolvedReply resolved, w)
               | Some entry \<Rightarrow>
                   if steerRequested \<and> endedAtTruthy entry then
                     (replyWith (formatRunLabel env entry None @ '' is already finished.''), w)
                   else
                     launchSendOrSteer env steerRequested entry message
                       (if steerRequested then steerInterrupt env entry w else w)))"

subsection \<open>The \<open>spawn\<close> action (lines 649-698)\<close>

text \<open>The loop of lines 655-665 over the tokens after the agent id: the task parts, the
  model and the thinking level.\<close>

fun parseSpawnTokens ::
  "string list \<Rightarrow> string list \<times> string option \<times> string option
     \<Rightarrow> string list \<times> string option \<times> string option" where
  "parseSpawnTokens [] acc = acc"
| "parseSpawnTokens [t] (taskParts, mdl, thinking) = (taskParts @ [t], mdl, thinking)"
| "parseSpawnTokens (t # u # ts) (taskParts, mdl, thinking) =
     (if t = ''--model'' then parseSpawnTokens ts (taskParts, Some u, thinking)
      else if t = ''--thinking'' then parseSpawnTokens ts (taskParts, mdl, Some u)
      else parseSpawnTokens (u # ts) (taskParts @ [t], mdl, thinking))"

definition handleSpawn ::
  "env \<Rightarrow> command_params \<Rightarrow> string \<Rightarrow> string list \<Rightarrow> world \<Rightarrow> handler_outcome \<times> world" where
  "handleSpawn env ps requesterKey restTokens w =
     (let agentId = (case restTokens of [] \<Rightarrow> None | a # _ \<Rightarrow> Some a);
          (taskParts, mdl, thinking) = parseSpawnTokens (drop 1 restTokens) ([], None, None);
          tsk = trim (joinWith '' '' taskParts)
      in if \<not> truthyStr agentId \<or> tsk = [] then
           (replyWith ''Usage: /subagents spawn <agentId> <task> [--model <model>] [--thinking <level>]'', w)
         else
           (let (result, w1) =
                  spawnSubagentDirect env (loadConfig env)
                    \<lparr>p_task = tsk, p_label = None, p_agentId = agentId, p_model = mdl,
                     p_thinking = thinking, p_runTimeoutSeconds = None, p_cleanup = Some ''keep''\<rparr>
                    \<lparr>agentSessionKey = Some requesterKey, agentChannel = cmd_channel ps,
                     agentAccountId = cmd_AccountId ps, agentTo = cmd_to ps,
                     agentThreadId = cmd_MessageThreadId ps, agentGroupId = None,
                     agentGroupChannel = None, agentGroupSpace = None,
                     requesterAgentIdOverride = None\<rparr> w
            in if status result = Accepted then
                 (replyWith (''Spawned subagent '' @ the agentId @ '' (session ''
                             @ templateOpt (res_childSessionKey result) @ '', run ''
                             @ templateOpt (map_option (take 8) (res_runId result)) @ '').''
                             @ (if truthyStr (warning result)
                                then '' Warning: '' @ the (warning result) else [])), w1)
               else
                 (replyWith (''Spawn failed: ''
                             @ (case error result of
                                  Some e \<Rightarrow> e
                                | None \<Rightarrow> (case status result of Accepted \<Rightarrow> ''accepted''
                                           | Forbidden \<Rightarrow> ''forbidden'' | Error \<Rightarrow> ''error''))), w1)))"

subsection \<open>The handler (lines 249-297 and the dispatch on the action)\<close>

definition handledPrefix_of :: "string \<Rightarrow> string option" where
  "handledPrefix_of normalized =
     (if startsWith normalized COMMAND then Some COMMAND
      else if startsWith normalized COMMAND_KILL then Some COMMAND_KILL
      else if startsWith normalized COMMAND_STEER then Some COMMAND_STEER
      else if startsWith normalized COMMAND_TELL then Some COMMAND_TELL
      else None)"

definition handleSubagentsCommand ::
  "env \<Rightarrow> command_params \<Rightarrow> bool \<Rightarrow> world \<Rightarrow> handler_outcome \<times> world" where
  "handleSubagentsCommand env ps allowTextCommands w =
     (if \<not> allowTextCommands then (Returned None, w)
      else case handledPrefix_of (commandBodyNormalized ps) of
        None \<Rightarrow> (Returned None, w)
      | Some handledPrefix \<Rightarrow>
          if \<not> isAuthorizedSender ps then
            (Returned (Some \<lparr>shouldContinue = False, reply = None\<rparr>), w)
          else
            (let rest = trim (drop (length handledPrefix) (commandBodyNormalized ps));
                 tokens = splitWs rest;
                 action =
                   (if handledPrefix = COMMAND
                    then (case tokens of [] \<Rightarrow> ''list''
                          | a # _ \<Rightarrow> if toLowerCase a = [] then ''list'' else toLowerCase a)
                    else if handledPrefix = COMMAND_KILL then ''kill''
                    else ''steer'');
                 restTokens = (if handledPrefix = COMMAND then drop 1 tokens else tokens)
             in if handledPrefix = COMMAND \<and> action \<notin> set ACTIONS then
                  (replyWith buildSubagentsHelp, w)
                else case resolveRequesterSessionKey env ps of
                  None \<Rightarrow> (replyWith (WARNING_SIGN @ '' Missing session key.''), w)
                | Some requesterKey \<Rightarrow>
                    if requesterKey = [] then
                      (replyWith (WARNING_SIGN @ '' Missing session key.''), w)
                    else
                      (let runs = listSubagentRunsForRequester w requesterKey
                       in if action = ''help'' then (replyWith buildSubagentsHelp, w)
                          else if action = ''list'' then
                            (replyWith (listText env (nowMs w) runs), w)
                          else if action = ''kill'' \<or> action = ''info'' then (NotModelled, w)
                          else if action = ''log'' then handleLog env restTokens runs w
                          else if action = ''send'' \<or> action = ''steer'' then
                            handleSendOrSteer env (action = ''steer'') handledPrefix restTokens runs w
                          else if action = ''spawn'' then
                            handleSpawn env ps requesterKey restTokens w
                          else (replyWith buildSubagentsHelp, w))))"

section \<open>Example configuration, collaborators and registry contents\<close>

text \<open>
  A concrete instance of every parameter, used where a statement is evaluated on an input:
  an empty configuration (all defaults), collaborators in the manner of the test doubles of
  the repository's test files, and a registry of five active runs of the session
  \<open>agent:main:main\<close>.
\<close>

definition exampleCfg :: config where
  "exampleCfg = \<lparr>cfg_subagents = None, cfg_modelPrimary = JUndefined\<rparr>"

definition exampleGateway :: "rpc_call \<Rightarrow> thrown + json" where
  "exampleGateway call =
     (if rpcMethod call = ''agent'' then Inr (JObj [(''runId'', JStr ''run-1'')])
      else if rpcMethod call = ''agent.wait'' then Inr (JObj [(''status'', JStr ''ok'')])
      else if rpcMethod call = ''chat.history'' then
        Inr (JObj [(''messages'',
                    JArr [JObj [(''role'', JStr ''user''), (''content'', JStr ''do the thing'')],
                          JObj [(''role'', JStr ''toolResult''), (''content'', JStr ''42'')],
                          JObj [(''role'', JStr ''assistant''), (''content'', JStr ''done'')]])])
      else Inr (JObj []))"

definition exampleEnv :: env where
  "exampleEnv =
     \<lparr>resolveMainSessionAlias = (\<lambda>cfg. (''main'', ''main'')),
      resolveInternalSessionKey = (\<lambda>k alias mainKey. k),
      resolveDisplaySessionKey = (\<lambda>k alias mainKey. k),
      getSubagentDepthFromSessionStore =
        (\<lambda>k cfg. if includesStr k '':subagent:'' then 1 else 0),
      normalizeAgentId =
        (\<lambda>v. case v of None \<Rightarrow> ''main''
              | Some a \<Rightarrow> if trim a = [] then ''main'' else toLowerCase (trim a)),
      parseAgentSessionKey =
        (\<lambda>k. case splitOn CHR '':'' k of
                a # b # c # r \<Rightarrow> if a = ''agent'' then Some b else None
              | _ \<Rightarrow> None),
      resolveAgentConfig = (\<lambda>cfg a. None),
      resolveDefaultModelForAgent = (\<lambda>cfg a. (''anthropic'', ''claude'')),
      readStringParam =
        (\<lambda>v. case v of JStr t \<Rightarrow> if trim t = [] then None else Some (trim t) | _ \<Rightarrow> None),
      normalizeThinkLevel =
        (\<lambda>t. if toLowerCase t \<in> set [''off'', ''low'', ''medium'', ''high'']
             then Some (toLowerCase t) else None),
      formatThinkingLevels = (\<lambda>provider mdl. ''off, low, medium, high''),
      normalizeDeliveryContext = (\<lambda>channel accountId to threadId. None),
      buildSubagentSystemPrompt = (\<lambda>rk ro ck l t d m. ''You are a subagent.''),
      gateway = exampleGateway,
      uuidSource = (\<lambda>n. ''uuid-'' @ showNat n),
      loadConfig = exampleCfg,
      loadSessionEntry = (\<lambda>k. JObj [(''sessionId'', JStr ''sess-1'')]),
      formatRunLabel = (\<lambda>r maxLength. case label r of Some l \<Rightarrow> l | None \<Rightarrow> task r),
      formatRunStatus =
        (\<lambda>r. case outcome r of Some oc \<Rightarrow> oc_status oc | None \<Rightarrow> ''running''),
      truncateLine = (\<lambda>t n. take n t),
      formatDurationCompact = (\<lambda>ms. Some (showInt (ms div 1000) @ ''s'')),
      formatTokenUsageDisplay = (\<lambda>entry. []),
      stripToolMessages =
        filter (\<lambda>m. getField m ''role'' \<noteq> JStr ''toolResult'' \<and> getField m ''role'' \<noteq> JStr ''tool''),
      extractTextFromChatContent = (\<lambda>content sanitize. case content of JStr t \<Rightarrow> Some t | _ \<Rightarrow> None),
      extractAssistantText =
        (\<lambda>m. case getField m ''content'' of JStr t \<Rightarrow> Some t | _ \<Rightarrow> None),
      INTERNAL_MESSAGE_CHANNEL = ''webchat''\<rparr>"


text \<open>A gateway that accepts every call and answers with an empty object, so that the
  response to \<open>agent\<close> has no \<open>runId\<close>.\<close>

definition silentEnv :: env where
  "silentEnv = exampleEnv\<lparr>gateway := (\<lambda>call. Inr (JObj []))\<rparr>"

text \<open>A gateway that rejects the model patch only.\<close>

definition modelRejectingEnv :: "thrown \<Rightarrow> env" where
  "modelRejectingEnv err =
     exampleEnv\<lparr>gateway := (\<lambda>call. if map_of (params call) ''model'' \<noteq> None then Inl err
                                   else exampleGateway call)\<rparr>"

text \<open>Collaborators where every agent is configured with the given allowlist.\<close>

definition allowingEnv :: "string list \<Rightarrow> env" where
  "allowingEnv allow =
     exampleEnv\<lparr>resolveAgentConfig :=
       (\<lambda>cfg a. Some \<lparr>sa_allowAgents = Some allow, sa_model = JUndefined,
                           sa_thinking = JUndefined\<rparr>)\<rparr>"

text \<open>Collaborators where every agent has the given \<open>subagents\<close> configuration.\<close>

definition configuredEnv :: "agent_subagents \<Rightarrow> env" where
  "configuredEnv sa = exampleEnv\<lparr>resolveAgentConfig := (\<lambda>cfg a. Some sa)\<rparr>"

definition exampleParams :: SpawnSubagentParams where
  "exampleParams =
     \<lparr>p_task = ''do the thing'', p_label = None, p_agentId = None, p_model = None,
      p_thinking = None, p_runTimeoutSeconds = None, p_cleanup = None\<rparr>"

definition exampleCtx :: "string \<Rightarrow> SpawnSubagentContext" where
  "exampleCtx sessKey =
     \<lparr>agentSessionKey = Some sessKey, agentChannel = None, agentAccountId = None,
      agentTo = None, agentThreadId = None, agentGroupId = None, agentGroupChannel = None,
      agentGroupSpace = None, requesterAgentIdOverride = None\<rparr>"

definition exampleRun :: "string \<Rightarrow> int \<Rightarrow> int option \<Rightarrow> SubagentRunRecord" where
  "exampleRun name started ended =
     \<lparr>runId = ''run-'' @ name, childSessionKey = ''agent:main:subagent:'' @ name,
      requesterSessionKey = ''agent:main:main'', requesterOrigin = None,
      requesterDisplayKey = ''main'', task = ''task '' @ name, cleanup = ''keep'',
      label = Some name, model = None, runTimeoutSeconds = Some 0, createdAt = started,
      startedAt = Some started, endedAt = ended,
      outcome = (case ended of None \<Rightarrow> None | Some t \<Rightarrow> Some \<lparr>oc_status = ''ok'', oc_error = None\<rparr>),
      archiveAtMs = None, cleanupHandled = False, steerRestart = False\<rparr>"

definition exampleWorld :: "SubagentRunRecord list \<Rightarrow> world" where
  "exampleWorld runs = \<lparr>subagentRuns = runs, trace = [], uuidsDrawn = 0, nowMs = 5000000\<rparr>"

definition fiveActiveRuns :: "SubagentRunRecord list" where
  "fiveActiveRuns =
     [exampleRun ''a'' 1000 None, exampleRun ''b'' 2000 None, exampleRun ''c'' 3000 None,
      exampleRun ''d'' 4000 None, exampleRun ''e'' 5000 None]"

text \<open>Two active runs and two ended ones, one of which ended more than thirty minutes
  before the clock reading of \<open>exampleWorld\<close>.\<close>

definition mixedRuns :: "SubagentRunRecord list" where
  "mixedRuns =
     [exampleRun ''old'' 1000 (Some 2000), exampleRun ''a'' 4000000 None,
      exampleRun ''done'' 4100000 (Some 4200000), exampleRun ''b'' 4300000 None]"

definition exampleCommand :: "string \<Rightarrow> command_params" where
  "exampleCommand body =
     \<lparr>commandBodyNormalized = body, isAuthorizedSender = True,
      cmd_sessionKey = Some ''agent:main:main'', cmd_CommandTargetSessionKey = None,
      cmd_channel = None, cmd_to = None, cmd_AccountId = None, cmd_MessageThreadId = None,
      cmd_cfg = exampleCfg\<rparr>"

section \<open>The specification's wording of the model resolution\<close>

text \<open>
  Section 4.2 of the specification resolves the effective model from candidates in priority
  order, "first non-empty wins". \<open>modelCandidateText\<close> is the text a configured value
  offers (the string itself, or the \<open>primary\<close> of an object); \<open>firstNonEmpty\<close> trims the
  candidates in order and returns the first that is not empty.
\<close>

definition modelCandidateText :: "json \<Rightarrow> string option" where
  "modelCandidateText v =
     (case v of
        JStr t \<Rightarrow> Some t
      | JObj kvs \<Rightarrow> (case getField (JObj kvs) ''primary'' of JStr p \<Rightarrow> Some p | _ \<Rightarrow> None)
      | _ \<Rightarrow> None)"

fun firstNonEmpty :: "string option list \<Rightarrow> string option" where
  "firstNonEmpty [] = None"
| "firstNonEmpty (None # cs) = firstNonEmpty cs"
| "firstNonEmpty (Some c # cs) = (if trim c = [] then firstNonEmpty cs else Some (trim c))"

text \<open>A result of a spawn has registered the run under the returned run id and child
  session key, with the resolved model.\<close>

definition registeredAs :: "env \<Rightarrow> config \<Rightarrow> SpawnSubagentParams \<Rightarrow> SpawnSubagentContext
    \<Rightarrow> string \<Rightarrow> SpawnSubagentResult \<times> world \<Rightarrow> bool" where
  "registeredAs env cfg ps ctx k R =
     (res_childSessionKey (fst R) = Some k
      \<and> (\<exists>r \<in> set (subagentRuns (snd R)).
            Some (runId r) = res_runId (fst R) \<and> childSessionKey r = k
            \<and> model r = resolvedModel env cfg ps ctx))"

text \<open>The registry invariant of claim C10: every tracked run has a run id that is not
  empty.\<close>

definition registryRunIdsNonEmpty :: "world \<Rightarrow> bool" where
  "registryRunIdsNonEmpty w = (\<forall>r \<in> set (subagentRuns w). runId r \<noteq> [])"

section \<open>Properties of the spawn engine\<close>

text \<open>White space: \<open>trim\<close> keeps every byte that occurs in no white space character, and
  leaves a string of such bytes as it is.\<close>

lemma whiteSpace_nonempty: "p \<in> set whiteSpace \<Longrightarrow> p \<noteq> []"
  by (auto simp add: whiteSpace_def)

lemma leadingSpace_SomeD:
  "leadingSpace s = Some p \<Longrightarrow> p \<in> set whiteSpace \<and> prefix p s"
  by (auto simp add: leadingSpace_def find_Some_iff)

lemma trailingSpace_SomeD:
  "trailingSpace s = Some p \<Longrightarrow> p \<in> set whiteSpace \<and> suffix p s"
  by (auto simp add: trailingSpace_def find_Some_iff)

lemma trimStart_keeps:
  "c \<in> set s \<Longrightarrow> c \<notin> set (concat whiteSpace) \<Longrightarrow> c \<in> set (trimStart s)"
proof (induction s rule: trimStart.induct)
  case (1 s)
  show ?case
  proof (cases "leadingSpace s")
    case None
    with 1(2) show ?thesis by (simp add: trimStart.simps [of s])
  next
    case (Some p)
    from leadingSpace_SomeD [OF Some] have p: "p \<in> set whiteSpace" and "prefix p s"
      by simp_all
    then obtain r where s: "s = p @ r" by (auto elim: prefixE)
    from p 1(3) have "c \<notin> set p" by auto
    with 1(2) s have "c \<in> set (drop (length p) s)" by simp
    from 1(1) [OF Some this 1(3)] show ?thesis
      by (simp add: trimStart.simps [of s] Some)
  qed
qed

lemma trimEnd_keeps:
  "c \<in> set s \<Longrightarrow> c \<notin> set (concat whiteSpace) \<Longrightarrow> c \<in> set (trimEnd s)"
proof (induction s rule: trimEnd.induct)
  case (1 s)
  show ?case
  proof (cases "trailingSpace s")
    case None
    with 1(2) show ?thesis by (simp add: trimEnd.simps [of s])
  next
    case (Some p)
    from trailingSpace_SomeD [OF Some] have p: "p \<in> set whiteSpace" and "suffix p s"
      by simp_all
    then obtain r where s: "s = r @ p" by (auto elim: suffixE)
    from p 1(3) have "c \<notin> set p" by auto
    with 1(2) s have "c \<in> set (take (length s - length p) s)" by simp
    from 1(1) [OF Some this 1(3)] show ?thesis
      by (simp add: trimEnd.simps [of s] Some)
  qed
qed

lemma trim_nonempty:
  assumes "c \<in> set s" and "c \<notin> set (concat whiteSpace)"
  shows "trim s \<noteq> []"
proof -
  from assms have "c \<in> set (trim s)"
    by (simp add: trim_def trimStart_keeps trimEnd_keeps)
  then show ?thesis by auto
qed

lemma leadingSpace_plain:
  assumes "s = [] \<or> hd s \<notin> set (concat whiteSpace)"
  shows "leadingSpace s = None"
proof (cases "leadingSpace s")
  case None
  then show ?thesis .
next
  case (Some p)
  from leadingSpace_SomeD [OF Some] have p: "p \<in> set whiteSpace" and pre: "prefix p s"
    by simp_all
  from p have ne: "p \<noteq> []" by (rule whiteSpace_nonempty)
  with pre obtain r where s: "s = p @ r" by (auto elim: prefixE)
  with ne have "s \<noteq> []" and "hd s = hd p" by simp_all
  moreover from ne p have "hd p \<in> set (concat whiteSpace)"
    by (auto intro: bexI [of _ p])
  ultimately show ?thesis using assms by simp
qed

lemma trailingSpace_plain:
  assumes "s = [] \<or> last s \<notin> set (concat whiteSpace)"
  shows "trailingSpace s = None"
proof (cases "trailingSpace s")
  case None
  then show ?thesis .
next
  case (Some p)
  from trailingSpace_SomeD [OF Some] have p: "p \<in> set whiteSpace" and suf: "suffix p s"
    by simp_all
  from p have ne: "p \<noteq> []" by (rule whiteSpace_nonempty)
  with suf obtain r where s: "s = r @ p" by (auto elim: suffixE)
  with ne have "s \<noteq> []" and "last s = last p" by simp_all
  moreover from ne p have "last p \<in> set (concat whiteSpace)"
    by (auto intro: bexI [of _ p])
  ultimately show ?thesis using assms by simp
qed

lemma trim_no_space: "\<forall>c \<in> set s. c \<notin> set (concat whiteSpace) \<Longrightarrow> trim s = s"
proof -
  assume a: "\<forall>c \<in> set s. c \<notin> set (concat whiteSpace)"
  then have "s = [] \<or> hd s \<notin> set (concat whiteSpace)"
    and "s = [] \<or> last s \<notin> set (concat whiteSpace)"
    by (cases s; simp)+
  then have "leadingSpace s = None" and "trailingSpace s = None"
    by (simp_all add: leadingSpace_plain trailingSpace_plain)
  then show ?thesis
    by (simp add: trim_def trimStart.simps [of s] trimEnd.simps [of s])
qed

lemma trimStart_Nil: "trimStart [] = []"
  by (simp add: trimStart.simps [of "[]"] leadingSpace_plain)

lemma trimEnd_Nil: "trimEnd [] = []"
  by (simp add: trimEnd.simps [of "[]"] trailingSpace_plain)

lemma trimStart_ascii_space:
  "set s \<subseteq> set '' '' \<union> {CHR 0x09, CHR 0x0A, CHR 0x0B, CHR 0x0C, CHR 0x0D} \<Longrightarrow> trimStart s = []"
proof (induction s)
  case Nil
  show ?case by (rule trimStart_Nil)
next
  case (Cons a s)
  then have a: "a \<in> {CHR 0x09, CHR 0x0A, CHR 0x0B, CHR 0x0C, CHR 0x0D, CHR 0x20}"
    and s: "trimStart s = []"
    by auto
  from a have "leadingSpace (a # s) = Some [a]"
    by (elim insertE emptyE; simp add: leadingSpace_def whiteSpace_def)
  then have "trimStart (a # s) = trimStart s"
    by (simp add: trimStart.simps [of "a # s"])
  with s show ?case
    by simp
qed

lemma trim_ascii_space:
  "set s \<subseteq> set '' '' \<union> {CHR 0x09, CHR 0x0A, CHR 0x0B, CHR 0x0C, CHR 0x0D} \<Longrightarrow> trim s = []"
  by (simp add: trim_def trimStart_ascii_space trimEnd_Nil)

lemmas example_simps =
  exampleEnv_def exampleCfg_def exampleCtx_def exampleParams_def exampleWorld_def
  exampleGateway_def exampleRun_def fiveActiveRuns_def mixedRuns_def exampleCommand_def

lemmas spawn_local_simps =
  callerDepth_def maxSpawnDepth_def maxChildren_def activeChildren_def requesterInternalKey_def
  requesterAgentId_def targetAgentId_def allowAgents_def allowAny_def allowSet_def
  agentAllowed_def countActiveRunsForSession_def isEnded_def orElse_def

lemma showInt_1: "showInt 1 = ''1''"
  by (simp add: showInt_def showNat.simps digitChar_def)

text \<open>Past the admission checks no result is \<open>forbidden\<close>: each later exit of
  \<open>spawnSubagentDirect\<close> is an error or the accepted result.\<close>

lemma launch_not_forbidden:
  "status (fst (spawnLaunchRun env cfg ps ctx k ma mw w)) \<noteq> Forbidden"
  by (simp add: spawnLaunchRun_def randomUUID_def callGateway_def failed_def Let_def
      split: sum.splits)

lemma thinking_not_forbidden:
  "status (fst (spawnPatchThinking env cfg ps ctx k ma mw w)) \<noteq> Forbidden"
  by (simp add: spawnPatchThinking_def callGateway_def failed_def launch_not_forbidden
      split: option.splits sum.splits)

lemma model_not_forbidden:
  "status (fst (spawnPatchModel env cfg ps ctx k w)) \<noteq> Forbidden"
  by (simp add: spawnPatchModel_def callGateway_def failed_def thinking_not_forbidden Let_def
      split: sum.splits)

lemma depth_not_forbidden:
  "status (fst (spawnPatchDepth env cfg ps ctx k w)) \<noteq> Forbidden"
  by (simp add: spawnPatchDepth_def callGateway_def failed_def model_not_forbidden
      split: sum.splits)

lemma admitted_not_forbidden:
  assumes "callerDepth env cfg ctx < maxSpawnDepth cfg"
    and "activeChildren env cfg ctx w < maxChildren cfg"
    and "agentAllowed env cfg ps ctx"
  shows "status (fst (spawnSubagentDirect env cfg ps ctx w)) \<noteq> Forbidden"
  using assms
  by (simp add: spawnSubagentDirect_def randomUUID_def failed_def depth_not_forbidden Let_def
      split: prod.splits)

text \<open>
  Claim C2 (depth admission). When the spawn depth resolved for the requester session is
  greater than or equal to \<open>maxSpawnDepth\<close>, \<open>spawnSubagentDirect\<close> returns the
  \<open>forbidden\<close> result whose reason names the current depth and the maximum, and the world
  it returns is the world it was given: no gateway call is added to the trace and nothing
  is inserted into the registry. \<open>maxSpawnDepth\<close> is 1 when the configuration does not
  set it.
\<close>

theorem depth_admission:
  assumes "callerDepth env cfg ctx \<ge> maxSpawnDepth cfg"
  shows "spawnSubagentDirect env cfg ps ctx w =
           (\<lparr>status = Forbidden, res_childSessionKey = None, res_runId = None,
             modelApplied = None, warning = None,
             error = Some (''sessions_spawn is not allowed at this depth (current depth: ''
                           @ showInt (callerDepth env cfg ctx) @ '', max: ''
                           @ showInt (maxSpawnDepth cfg) @ '')'')\<rparr>, w)
         \<and> maxSpawnDepth (cfg\<lparr>cfg_subagents := None\<rparr>) = 1
         \<and> maxSpawnDepth (cfg\<lparr>cfg_subagents := Some (sd\<lparr>sd_maxSpawnDepth := None\<rparr>)\<rparr>) = 1"
  using assms
  by (simp add: spawnSubagentDirect_def forbidden_def depthForbiddenText_def maxSpawnDepth_def)

theorem depth_admission_witness:
  "callerDepth exampleEnv exampleCfg (exampleCtx ''agent:main:subagent:x'') \<ge> maxSpawnDepth exampleCfg
   \<and> spawnSubagentDirect exampleEnv exampleCfg exampleParams (exampleCtx ''agent:main:subagent:x'')
        (exampleWorld []) =
       (\<lparr>status = Forbidden, res_childSessionKey = None, res_runId = None,
         modelApplied = None, warning = None,
         error = Some ''sessions_spawn is not allowed at this depth (current depth: 1, max: 1)''\<rparr>,
        exampleWorld [])"
proof -
  have h: "callerDepth exampleEnv exampleCfg (exampleCtx ''agent:main:subagent:x'')
             \<ge> maxSpawnDepth exampleCfg"
    by (simp add: example_simps spawn_local_simps)
  have d: "callerDepth exampleEnv exampleCfg (exampleCtx ''agent:main:subagent:x'') = 1"
    by (simp add: example_simps spawn_local_simps)
  have m: "maxSpawnDepth exampleCfg = 1"
    by (simp add: example_simps spawn_local_simps)
  from depth_admission [OF h, of exampleParams "exampleWorld []"] h show ?thesis
    by (simp add: d m showInt_1)
qed

lemma filter_map_le:
  assumes "\<And>x. P (f x) \<Longrightarrow> P x"
  shows "length (filter P (map f xs)) \<le> length (filter P xs)"
proof (induction xs)
  case Nil
  show ?case by simp
next
  case (Cons x xs)
  then show ?case using assms [of x] by auto
qed

lemma filter_map_less:
  assumes mono: "\<And>x. P (f x) \<Longrightarrow> P x"
    and mem: "r \<in> set xs" and before: "P r" and after: "\<not> P (f r)"
  shows "length (filter P (map f xs)) < length (filter P xs)"
  using mem
proof (induction xs)
  case Nil
  then show ?case by simp
next
  case (Cons x xs)
  show ?case
  proof (cases "x = r")
    case True
    have "length (filter P (map f xs)) \<le> length (filter P xs)"
      by (rule filter_map_le) (rule mono)
    with True before after show ?thesis by simp
  next
    case False
    with Cons have "length (filter P (map f xs)) < length (filter P xs)" by simp
    then show ?thesis using mono [of x] by auto
  qed
qed

lemma terminated_count_drops:
  assumes "r \<in> set (subagentRuns w)" and "requesterSessionKey r = key" and "endedAt r = None"
  shows "countActiveRunsForSession (markSubagentRunTerminated (runId r) ck reason w) key
           < countActiveRunsForSession w key"
proof -
  let ?P = "\<lambda>x. requesterSessionKey x = key \<and> \<not> isEnded x"
  let ?f = "\<lambda>x. if runId x = runId r \<and> \<not> isEnded x
                 then x\<lparr>endedAt := Some (nowMs w),
                        outcome := Some \<lparr>oc_status = reason, oc_error = None\<rparr>\<rparr>
                 else x"
  have "length (filter ?P (map ?f (subagentRuns w))) < length (filter ?P (subagentRuns w))"
  proof (rule filter_map_less [where r = r])
    fix x assume "?P (?f x)" then show "?P x" by (auto simp: isEnded_def split: if_splits)
  next
    show "r \<in> set (subagentRuns w)" by (rule assms)
  next
    show "?P r" using assms by (simp add: isEnded_def)
  next
    show "\<not> ?P (?f r)" using assms by (simp add: isEnded_def)
  qed
  then show ?thesis
    by (simp add: countActiveRunsForSession_def markSubagentRunTerminated_def)
qed

lemma accepting_gateway_accepts:
  assumes "callerDepth env cfg ctx < maxSpawnDepth cfg"
    and "activeChildren env cfg ctx w < maxChildren cfg"
    and "agentAllowed env cfg ps ctx"
    and "\<not> truthyStr (thinkingCandidateRaw env cfg ps ctx)
         \<or> truthyStr (thinkingOverride env cfg ps ctx)"
    and "\<forall>call. \<exists>resp. gateway env call = Inr resp"
  shows "status (fst (spawnSubagentDirect env cfg ps ctx w)) = Accepted"
proof -
  have ok: "gateway env c \<noteq> Inl e" for c e
    using assms(5) by (metis sum.distinct(1))
  have launch: "status (fst (spawnLaunchRun env cfg ps ctx k ma mw v)) = Accepted" for k ma mw v
    by (simp add: spawnLaunchRun_def randomUUID_def callGateway_def Let_def ok
        split: sum.splits)
  have think: "status (fst (spawnPatchThinking env cfg ps ctx k ma mw v)) = Accepted" for k ma mw v
    by (simp add: spawnPatchThinking_def callGateway_def launch ok split: option.splits sum.splits)
  have mdl: "status (fst (spawnPatchModel env cfg ps ctx k v)) = Accepted" for k v
    by (simp add: spawnPatchModel_def callGateway_def think Let_def ok split: sum.splits)
  have dep: "status (fst (spawnPatchDepth env cfg ps ctx k v)) = Accepted" for k v
    by (simp add: spawnPatchDepth_def callGateway_def mdl ok split: sum.splits)
  show ?thesis
    using assms(1-4)
    by (auto simp add: spawnSubagentDirect_def randomUUID_def dep Let_def)
qed

text \<open>
  Claim C3 (fan-out admission). When the count of active (non-ended) registered runs of the
  requester session is greater than or equal to \<open>maxChildrenPerAgent\<close> (5 when the
  configuration does not set it), \<open>spawnSubagentDirect\<close> returns a \<open>forbidden\<close> result and
  the unchanged world. When the count is at the limit and one of those children is marked
  terminated, the count is below the limit, so the fan-out check of a subsequent spawn from
  the same session passes: the spawn is not forbidden when the depth and allowlist checks
  pass, and it is accepted when moreover the thinking level is valid or absent and the
  gateway accepts every call.
\<close>

theorem fanout_admission:
  "(activeChildren env cfg ctx w \<ge> maxChildren cfg \<longrightarrow>
      status (fst (spawnSubagentDirect env cfg ps ctx w)) = Forbidden
      \<and> error (fst (spawnSubagentDirect env cfg ps ctx w)) =
          Some (if callerDepth env cfg ctx \<ge> maxSpawnDepth cfg
                then depthForbiddenText (callerDepth env cfg ctx) (maxSpawnDepth cfg)
                else ''sessions_spawn has reached max active children for this session (''
                     @ showInt (activeChildren env cfg ctx w) @ ''/''
                     @ showInt (maxChildren cfg) @ '')'')
      \<and> snd (spawnSubagentDirect env cfg ps ctx w) = w)
   \<and> maxChildren (cfg\<lparr>cfg_subagents := None\<rparr>) = 5
   \<and> maxChildren (cfg\<lparr>cfg_subagents := Some (sd\<lparr>sd_maxChildrenPerAgent := None\<rparr>)\<rparr>) = 5
   \<and> (activeChildren env cfg ctx w \<le> maxChildren cfg \<and> r \<in> set (subagentRuns w)
       \<and> requesterSessionKey r = requesterInternalKey env cfg ctx \<and> endedAt r = None \<longrightarrow>
       activeChildren env cfg ctx (markSubagentRunTerminated (runId r) ck reason w)
         < maxChildren cfg
       \<and> (callerDepth env cfg ctx < maxSpawnDepth cfg \<and> agentAllowed env cfg ps' ctx \<longrightarrow>
            status (fst (spawnSubagentDirect env cfg ps' ctx
                           (markSubagentRunTerminated (runId r) ck reason w))) \<noteq> Forbidden)
       \<and> (callerDepth env cfg ctx < maxSpawnDepth cfg \<and> agentAllowed env cfg ps' ctx
            \<and> (\<not> truthyStr (thinkingCandidateRaw env cfg ps' ctx)
                \<or> truthyStr (thinkingOverride env cfg ps' ctx))
            \<and> (\<forall>call. \<exists>resp. gateway env call = Inr resp) \<longrightarrow>
            status (fst (spawnSubagentDirect env cfg ps' ctx
                           (markSubagentRunTerminated (runId r) ck reason w))) = Accepted))"
proof (intro conjI impI)
  assume full: "maxChildren cfg \<le> activeChildren env cfg ctx w"
  then show "status (fst (spawnSubagentDirect env cfg ps ctx w)) = Forbidden"
    by (simp add: spawnSubagentDirect_def forbidden_def)
  from full show "error (fst (spawnSubagentDirect env cfg ps ctx w)) =
          Some (if callerDepth env cfg ctx \<ge> maxSpawnDepth cfg
                then depthForbiddenText (callerDepth env cfg ctx) (maxSpawnDepth cfg)
                else ''sessions_spawn has reached max active children for this session (''
                     @ showInt (activeChildren env cfg ctx w) @ ''/''
                     @ showInt (maxChildren cfg) @ '')'')"
    by (simp add: spawnSubagentDirect_def forbidden_def childrenForbiddenText_def)
  from full show "snd (spawnSubagentDirect env cfg ps ctx w) = w"
    by (simp add: spawnSubagentDirect_def)
next
  show "maxChildren (cfg\<lparr>cfg_subagents := None\<rparr>) = 5"
    by (simp add: maxChildren_def)
  show "maxChildren (cfg\<lparr>cfg_subagents := Some (sd\<lparr>sd_maxChildrenPerAgent := None\<rparr>)\<rparr>) = 5"
    by (simp add: maxChildren_def)
next
  assume h: "activeChildren env cfg ctx w \<le> maxChildren cfg \<and> r \<in> set (subagentRuns w)
       \<and> requesterSessionKey r = requesterInternalKey env cfg ctx \<and> endedAt r = None"
  let ?w = "markSubagentRunTerminated (runId r) ck reason w"
  from h have "countActiveRunsForSession ?w (requesterInternalKey env cfg ctx)
                 < countActiveRunsForSession w (requesterInternalKey env cfg ctx)"
    by (intro terminated_count_drops) simp_all
  with h show below: "activeChildren env cfg ctx ?w < maxChildren cfg"
    by (simp add: activeChildren_def)
  {
    assume "callerDepth env cfg ctx < maxSpawnDepth cfg \<and> agentAllowed env cfg ps' ctx"
    with below show "status (fst (spawnSubagentDirect env cfg ps' ctx ?w)) \<noteq> Forbidden"
      by (intro admitted_not_forbidden) simp_all
  }
  {
    assume "callerDepth env cfg ctx < maxSpawnDepth cfg \<and> agentAllowed env cfg ps' ctx
            \<and> (\<not> truthyStr (thinkingCandidateRaw env cfg ps' ctx)
                \<or> truthyStr (thinkingOverride env cfg ps' ctx))
            \<and> (\<forall>call. \<exists>resp. gateway env call = Inr resp)"
    with below show "status (fst (spawnSubagentDirect env cfg ps' ctx ?w)) = Accepted"
      by (intro accepting_gateway_accepts) simp_all
  }
qed


lemma showInt_5: "showInt 5 = ''5''"
  by (simp add: showInt_def showNat.simps digitChar_def)

theorem fanout_admission_witness:
  "maxChildren exampleCfg \<le> activeChildren exampleEnv exampleCfg (exampleCtx ''agent:main:main'')
                              (exampleWorld fiveActiveRuns)
   \<and> spawnSubagentDirect exampleEnv exampleCfg exampleParams (exampleCtx ''agent:main:main'')
        (exampleWorld fiveActiveRuns) =
       (\<lparr>status = Forbidden, res_childSessionKey = None, res_runId = None,
         modelApplied = None, warning = None,
         error = Some ''sessions_spawn has reached max active children for this session (5/5)''\<rparr>,
        exampleWorld fiveActiveRuns)
   \<and> exampleRun ''a'' 1000 None \<in> set (subagentRuns (exampleWorld fiveActiveRuns))
   \<and> requesterSessionKey (exampleRun ''a'' 1000 None) =
       requesterInternalKey exampleEnv exampleCfg (exampleCtx ''agent:main:main'')
   \<and> endedAt (exampleRun ''a'' 1000 None) = None
   \<and> activeChildren exampleEnv exampleCfg (exampleCtx ''agent:main:main'')
        (markSubagentRunTerminated ''run-a'' ''agent:main:subagent:a'' ''killed''
           (exampleWorld fiveActiveRuns)) = 4
   \<and> callerDepth exampleEnv exampleCfg (exampleCtx ''agent:main:main'') < maxSpawnDepth exampleCfg
   \<and> agentAllowed exampleEnv exampleCfg exampleParams (exampleCtx ''agent:main:main'')
   \<and> \<not> truthyStr (thinkingCandidateRaw exampleEnv exampleCfg exampleParams
                      (exampleCtx ''agent:main:main''))
   \<and> (\<forall>call. \<exists>resp. gateway exampleEnv call = Inr resp)
   \<and> status (fst (spawnSubagentDirect exampleEnv exampleCfg exampleParams
                     (exampleCtx ''agent:main:main'')
                     (markSubagentRunTerminated ''run-a'' ''agent:main:subagent:a'' ''killed''
                        (exampleWorld fiveActiveRuns)))) = Accepted"
proof -
  let ?X = "exampleCtx ''agent:main:main''"
  let ?W = "exampleWorld fiveActiveRuns"
  let ?r = "exampleRun ''a'' 1000 None"
  let ?W' = "markSubagentRunTerminated ''run-a'' ''agent:main:subagent:a'' ''killed'' ?W"
  have a: "activeChildren exampleEnv exampleCfg ?X ?W = 5"
    by (simp add: example_simps spawn_local_simps)
  have a': "activeChildren exampleEnv exampleCfg ?X ?W' = 4"
    by (simp add: example_simps spawn_local_simps markSubagentRunTerminated_def)
  have m: "maxChildren exampleCfg = 5"
    by (simp add: example_simps spawn_local_simps)
  have d: "callerDepth exampleEnv exampleCfg ?X = 0"
    by (simp add: example_simps spawn_local_simps)
  have md: "maxSpawnDepth exampleCfg = 1"
    by (simp add: example_simps spawn_local_simps)
  have mem: "?r \<in> set (subagentRuns ?W)"
    by (simp add: exampleWorld_def fiveActiveRuns_def)
  have key: "requesterSessionKey ?r = requesterInternalKey exampleEnv exampleCfg ?X"
    by (simp add: example_simps spawn_local_simps)
  have rid: "runId ?r = ''run-a''" and ended: "endedAt ?r = None"
    by (simp_all add: exampleRun_def)
  have al: "agentAllowed exampleEnv exampleCfg exampleParams ?X"
    by (simp add: example_simps spawn_local_simps)
  have th: "\<not> truthyStr (thinkingCandidateRaw exampleEnv exampleCfg exampleParams ?X)"
    by (simp add: example_simps spawn_local_simps thinkingCandidateRaw_def
        resolvedThinkingDefaultRaw_def)
  have gw: "\<forall>call. \<exists>resp. gateway exampleEnv call = Inr resp"
    by (simp add: exampleEnv_def exampleGateway_def)
  note T = fanout_admission [where env = exampleEnv and cfg = exampleCfg and ctx = ?X
      and w = ?W and ps = exampleParams and ps' = exampleParams and r = ?r
      and ck = "''agent:main:subagent:a''" and reason = "''killed''"]
  have rej: "status (fst (spawnSubagentDirect exampleEnv exampleCfg exampleParams ?X ?W)) = Forbidden
      \<and> error (fst (spawnSubagentDirect exampleEnv exampleCfg exampleParams ?X ?W)) =
          Some ''sessions_spawn has reached max active children for this session (5/5)''
      \<and> snd (spawnSubagentDirect exampleEnv exampleCfg exampleParams ?X ?W) = ?W"
    using T by (simp add: a m d md showInt_5)
  have acc: "status (fst (spawnSubagentDirect exampleEnv exampleCfg exampleParams ?X ?W')) = Accepted"
    using T mem key ended al th gw by (simp add: a m d md rid)
  have full: "spawnSubagentDirect exampleEnv exampleCfg exampleParams ?X ?W =
       (\<lparr>status = Forbidden, res_childSessionKey = None, res_runId = None,
         modelApplied = None, warning = None,
         error = Some ''sessions_spawn has reached max active children for this session (5/5)''\<rparr>,
        ?W)"
    using rej
    by (simp add: spawnSubagentDirect_def forbidden_def a m d md prod_eq_iff)
  show ?thesis
    using full acc mem key ended a' al th gw by (simp add: a m d md)
qed

lemma agentAllowed_iff:
  "agentAllowed env cfg ps ctx \<longleftrightarrow>
     targetAgentId env cfg ps ctx = requesterAgentId env cfg ctx
     \<or> (\<exists>v \<in> set (allowAgents env cfg ctx). trim v = ''*'')
     \<or> (\<exists>v \<in> set (allowAgents env cfg ctx). trim v \<noteq> [] \<and> trim v \<noteq> ''*''
           \<and> toLowerCase (normalizeAgentId env (Some v))
               = toLowerCase (targetAgentId env cfg ps ctx))"
  by (auto simp add: agentAllowed_def allowAny_def allowSet_def setOrder_def list_ex_iff image_iff)

text \<open>
  Claim C4 (allowlist enforcement). When the normalized target agent differs from the
  requester's agent and the requester agent's \<open>allowAgents\<close> list has neither an entry that
  trims to \<open>*\<close> nor an entry (not blank, not the wildcard) whose normalized, lower-cased
  form is the lower-cased target, the result is \<open>forbidden\<close> and the world is unchanged;
  when the depth and fan-out checks pass its reason is the allowlist message. When the
  depth and fan-out checks pass and the target is the requester's own agent, or the list
  has a wildcard entry, or the list contains the target, the result is not \<open>forbidden\<close>: a
  spawn that targets the requester's own agent is never subject to the allowlist.
\<close>

theorem allowlist_enforcement:
  "(targetAgentId env cfg ps ctx \<noteq> requesterAgentId env cfg ctx
      \<and> \<not> (\<exists>v \<in> set (allowAgents env cfg ctx). trim v = ''*'')
      \<and> \<not> (\<exists>v \<in> set (allowAgents env cfg ctx). trim v \<noteq> [] \<and> trim v \<noteq> ''*''
              \<and> toLowerCase (normalizeAgentId env (Some v))
                  = toLowerCase (targetAgentId env cfg ps ctx))
      \<longrightarrow> status (fst (spawnSubagentDirect env cfg ps ctx w)) = Forbidden
          \<and> snd (spawnSubagentDirect env cfg ps ctx w) = w
          \<and> (callerDepth env cfg ctx < maxSpawnDepth cfg
               \<and> activeChildren env cfg ctx w < maxChildren cfg
               \<longrightarrow> error (fst (spawnSubagentDirect env cfg ps ctx w)) =
                     Some (agentForbiddenText (allowSet env (allowAgents env cfg ctx)))))
   \<and> (callerDepth env cfg ctx < maxSpawnDepth cfg
      \<and> activeChildren env cfg ctx w < maxChildren cfg
      \<and> (targetAgentId env cfg ps ctx = requesterAgentId env cfg ctx
          \<or> (\<exists>v \<in> set (allowAgents env cfg ctx). trim v = ''*'')
          \<or> (\<exists>v \<in> set (allowAgents env cfg ctx). trim v \<noteq> [] \<and> trim v \<noteq> ''*''
                \<and> toLowerCase (normalizeAgentId env (Some v))
                    = toLowerCase (targetAgentId env cfg ps ctx)))
      \<longrightarrow> status (fst (spawnSubagentDirect env cfg ps ctx w)) \<noteq> Forbidden)"
proof (intro conjI impI)
  assume h: "targetAgentId env cfg ps ctx \<noteq> requesterAgentId env cfg ctx
      \<and> \<not> (\<exists>v \<in> set (allowAgents env cfg ctx). trim v = ''*'')
      \<and> \<not> (\<exists>v \<in> set (allowAgents env cfg ctx). trim v \<noteq> [] \<and> trim v \<noteq> ''*''
              \<and> toLowerCase (normalizeAgentId env (Some v))
                  = toLowerCase (targetAgentId env cfg ps ctx))"
  then have no: "\<not> agentAllowed env cfg ps ctx"
    by (simp only: agentAllowed_iff) blast
  from no show "status (fst (spawnSubagentDirect env cfg ps ctx w)) = Forbidden"
    by (simp add: spawnSubagentDirect_def forbidden_def)
  from no show "snd (spawnSubagentDirect env cfg ps ctx w) = w"
    by (simp add: spawnSubagentDirect_def)
  assume "callerDepth env cfg ctx < maxSpawnDepth cfg
               \<and> activeChildren env cfg ctx w < maxChildren cfg"
  with no show "error (fst (spawnSubagentDirect env cfg ps ctx w)) =
                     Some (agentForbiddenText (allowSet env (allowAgents env cfg ctx)))"
    by (simp add: spawnSubagentDirect_def forbidden_def)
next
  assume h: "callerDepth env cfg ctx < maxSpawnDepth cfg
      \<and> activeChildren env cfg ctx w < maxChildren cfg
      \<and> (targetAgentId env cfg ps ctx = requesterAgentId env cfg ctx
          \<or> (\<exists>v \<in> set (allowAgents env cfg ctx). trim v = ''*'')
          \<or> (\<exists>v \<in> set (allowAgents env cfg ctx). trim v \<noteq> [] \<and> trim v \<noteq> ''*''
                \<and> toLowerCase (normalizeAgentId env (Some v))
                    = toLowerCase (targetAgentId env cfg ps ctx)))"
  then have "agentAllowed env cfg ps ctx"
    by (simp only: agentAllowed_iff)
  with h show "status (fst (spawnSubagentDirect env cfg ps ctx w)) \<noteq> Forbidden"
    by (simp add: admitted_not_forbidden)
qed

lemmas string_simps = trim_no_space whiteSpace_def toLowerCase_def toLowerChar_def

lemma allowing_locals:
  "callerDepth (allowingEnv allow) exampleCfg (exampleCtx ''agent:main:main'') = 0"
  "maxSpawnDepth exampleCfg = 1"
  "maxChildren exampleCfg = 5"
  "activeChildren (allowingEnv allow) exampleCfg (exampleCtx ''agent:main:main'') (exampleWorld []) = 0"
  "requesterAgentId (allowingEnv allow) exampleCfg (exampleCtx ''agent:main:main'') = ''main''"
  "targetAgentId (allowingEnv allow) exampleCfg (exampleParams\<lparr>p_agentId := Some ''other''\<rparr>)
     (exampleCtx ''agent:main:main'') = ''other''"
  "allowAgents (allowingEnv allow) exampleCfg (exampleCtx ''agent:main:main'') = allow"
  "normalizeAgentId (allowingEnv allow) =
     (\<lambda>v. case v of None \<Rightarrow> ''main''
              | Some a \<Rightarrow> if trim a = [] then ''main'' else toLowerCase (trim a))"
  by (simp_all add: allowingEnv_def example_simps spawn_local_simps string_simps)

theorem allowlist_enforcement_witness:
  "requesterAgentId (allowingEnv [''alpha'']) exampleCfg (exampleCtx ''agent:main:main'') = ''main''
   \<and> targetAgentId (allowingEnv [''alpha'']) exampleCfg
        (exampleParams\<lparr>p_agentId := Some ''other''\<rparr>) (exampleCtx ''agent:main:main'') = ''other''
   \<and> status (fst (spawnSubagentDirect (allowingEnv [''alpha'']) exampleCfg
                  (exampleParams\<lparr>p_agentId := Some ''other''\<rparr>) (exampleCtx ''agent:main:main'')
                  (exampleWorld []))) = Forbidden
   \<and> error (fst (spawnSubagentDirect (allowingEnv [''alpha'']) exampleCfg
                  (exampleParams\<lparr>p_agentId := Some ''other''\<rparr>) (exampleCtx ''agent:main:main'')
                  (exampleWorld []))) =
       Some ''agentId is not allowed for sessions_spawn (allowed: alpha)''
   \<and> status (fst (spawnSubagentDirect (allowingEnv ['' * '']) exampleCfg
                  (exampleParams\<lparr>p_agentId := Some ''other''\<rparr>) (exampleCtx ''agent:main:main'')
                  (exampleWorld []))) \<noteq> Forbidden
   \<and> status (fst (spawnSubagentDirect (allowingEnv [''alpha'', ''Other'']) exampleCfg
                  (exampleParams\<lparr>p_agentId := Some ''other''\<rparr>) (exampleCtx ''agent:main:main'')
                  (exampleWorld []))) \<noteq> Forbidden
   \<and> status (fst (spawnSubagentDirect (allowingEnv []) exampleCfg
                  (exampleParams\<lparr>p_agentId := Some ''main''\<rparr>) (exampleCtx ''agent:main:main'')
                  (exampleWorld []))) \<noteq> Forbidden"
proof -
  let ?X = "exampleCtx ''agent:main:main''"
  let ?P = "exampleParams\<lparr>p_agentId := Some ''other''\<rparr>"
  have own: "targetAgentId (allowingEnv []) exampleCfg (exampleParams\<lparr>p_agentId := Some ''main''\<rparr>) ?X
               = ''main''"
    by (simp add: allowingEnv_def example_simps spawn_local_simps string_simps)
  have msg: "agentForbiddenText (allowSet (allowingEnv [''alpha'']) [''alpha''])
               = ''agentId is not allowed for sessions_spawn (allowed: alpha)''"
    by (simp add: agentForbiddenText_def allowSet_def setOrder_def allowing_locals string_simps)
  note A = allowlist_enforcement [where env = "allowingEnv [''alpha'']" and cfg = exampleCfg
      and ps = ?P and ctx = ?X and w = "exampleWorld []"]
  note B = allowlist_enforcement [where env = "allowingEnv ['' * '']" and cfg = exampleCfg
      and ps = ?P and ctx = ?X and w = "exampleWorld []"]
  note C = allowlist_enforcement [where env = "allowingEnv [''alpha'', ''Other'']" and cfg = exampleCfg
      and ps = ?P and ctx = ?X and w = "exampleWorld []"]
  note D = allowlist_enforcement [where env = "allowingEnv []" and cfg = exampleCfg
      and ps = "exampleParams\<lparr>p_agentId := Some ''main''\<rparr>" and ctx = ?X and w = "exampleWorld []"]
  have a: "status (fst (spawnSubagentDirect (allowingEnv [''alpha'']) exampleCfg ?P ?X (exampleWorld [])))
             = Forbidden
           \<and> error (fst (spawnSubagentDirect (allowingEnv [''alpha'']) exampleCfg ?P ?X (exampleWorld [])))
               = Some ''agentId is not allowed for sessions_spawn (allowed: alpha)''"
    using A by (simp add: allowing_locals string_simps msg)
  have star: "trim '' * '' = ''*''"
    by code_simp
  have b: "status (fst (spawnSubagentDirect (allowingEnv ['' * '']) exampleCfg ?P ?X (exampleWorld [])))
             \<noteq> Forbidden"
    using B by (simp add: allowing_locals string_simps star)
  have c: "status (fst (spawnSubagentDirect (allowingEnv [''alpha'', ''Other'']) exampleCfg ?P ?X
                          (exampleWorld []))) \<noteq> Forbidden"
    using C by (simp add: allowing_locals string_simps)
  have d: "status (fst (spawnSubagentDirect (allowingEnv []) exampleCfg
                  (exampleParams\<lparr>p_agentId := Some ''main''\<rparr>) ?X (exampleWorld []))) \<noteq> Forbidden"
    using D by (simp add: allowing_locals own)
  from a b c d show ?thesis by (simp add: allowing_locals)
qed

lemma normalizeModelSelection_candidate:
  "normalizeModelSelection v = firstNonEmpty [modelCandidateText v]"
  by (cases v) (simp_all add: modelCandidateText_def Let_def split: json.splits option.splits)

lemma firstNonEmpty_cons:
  "firstNonEmpty (c # cs) = orElse (firstNonEmpty [c]) (firstNonEmpty cs)"
  by (cases c) (simp_all add: orElse_def)

lemma normalizeModelSelection_truthy:
  "normalizeModelSelection v = Some t \<Longrightarrow> t \<noteq> []"
  by (cases v) (auto simp add: Let_def split: if_splits json.splits option.splits)

lemma orElse_Some_iff:
  "orElse a b = Some t \<longleftrightarrow> a = Some t \<or> (a = None \<and> b = Some t)"
  by (cases a) (auto simp add: orElse_def)

lemma resolvedModel_truthy: "truthyStr (resolvedModel env cfg ps ctx)"
proof -
  obtain p m where pm: "resolveDefaultModelForAgent env cfg (targetAgentId env cfg ps ctx) = (p, m)"
    by (cases "resolveDefaultModelForAgent env cfg (targetAgentId env cfg ps ctx)") auto
  have "trim (p @ ''/'' @ m) \<noteq> []"
    by (rule trim_nonempty [where c = "CHR ''/''"]) (simp_all add: whiteSpace_def)
  then obtain t where last: "normalizeModelSelection (JStr (p @ ''/'' @ m)) = Some t"
    by (simp add: Let_def)
  note ne = normalizeModelSelection_truthy [OF last]
  have "\<exists>t. resolvedModel env cfg ps ctx = Some t \<and> t \<noteq> []"
    unfolding resolvedModel_def Let_def pm prod.case last
    using ne
    by (auto simp add: orElse_def dest: normalizeModelSelection_truthy split: option.splits)
  then show ?thesis by auto
qed

lemma setRun_mem: "r \<in> set (setRun r rs)"
  by (auto simp add: setRun_def list_ex_iff)


lemma normalizeModelSelection_override:
  "normalizeModelSelection (optStr v) = firstNonEmpty [v]"
  by (cases v) (simp_all add: optStr_def Let_def)

lemma resolvedModel_firstNonEmpty:
  "resolvedModel env cfg ps ctx =
     firstNonEmpty
       [p_model ps,
        modelCandidateText
          (case resolveAgentConfig env cfg (targetAgentId env cfg ps ctx) of
             None \<Rightarrow> JUndefined | Some sa \<Rightarrow> sa_model sa),
        modelCandidateText
          (case cfg_subagents cfg of None \<Rightarrow> JUndefined | Some sd \<Rightarrow> sd_model sd),
        modelCandidateText (cfg_modelPrimary cfg),
        Some (fst (resolveDefaultModelForAgent env cfg (targetAgentId env cfg ps ctx)) @ ''/''
              @ snd (resolveDefaultModelForAgent env cfg (targetAgentId env cfg ps ctx)))]"
proof -
  have a: "modelCandidateText (optStr v) = v" for v
    by (cases v) (simp_all add: modelCandidateText_def optStr_def)
  have b: "modelCandidateText (JStr t) = Some t" for t
    by (simp add: modelCandidateText_def)
  show ?thesis
    unfolding resolvedModel_def Let_def split_beta
    by (simp only: firstNonEmpty_cons [of _ "_ # _"] normalizeModelSelection_candidate a b)
qed

text \<open>The trace only grows along the stages of a spawn.\<close>

lemma launch_trace_mono:
  "e \<in> set (trace w) \<Longrightarrow> e \<in> set (trace (snd (spawnLaunchRun env cfg ps ctx k ma mw w)))"
  by (simp add: spawnLaunchRun_def randomUUID_def callGateway_def registerSubagentRun_def Let_def
      split: sum.splits)

lemma thinking_trace_mono:
  "e \<in> set (trace w) \<Longrightarrow> e \<in> set (trace (snd (spawnPatchThinking env cfg ps ctx k ma mw w)))"
  by (simp add: spawnPatchThinking_def callGateway_def launch_trace_mono
      split: option.splits sum.splits)

lemma launch_registers:
  "status (fst (spawnLaunchRun env cfg ps ctx k ma mw w)) = Accepted \<Longrightarrow>
   registeredAs env cfg ps ctx k (spawnLaunchRun env cfg ps ctx k ma mw w)"
  by (auto simp add: registeredAs_def spawnLaunchRun_def randomUUID_def callGateway_def
      registerSubagentRun_def failed_def Let_def
      intro!: bexI [OF _ setRun_mem] split: sum.splits)

lemma thinking_registers:
  "status (fst (spawnPatchThinking env cfg ps ctx k ma mw w)) = Accepted \<Longrightarrow>
   registeredAs env cfg ps ctx k (spawnPatchThinking env cfg ps ctx k ma mw w)"
  by (auto simp add: spawnPatchThinking_def callGateway_def failed_def launch_registers
      split: option.splits sum.splits)

lemma model_registers:
  assumes "status (fst (spawnPatchModel env cfg ps ctx k w)) = Accepted"
  shows "registeredAs env cfg ps ctx k (spawnPatchModel env cfg ps ctx k w)
         \<and> GatewayCall (modelPatchCall k (the (resolvedModel env cfg ps ctx)))
             \<in> set (trace (snd (spawnPatchModel env cfg ps ctx k w)))"
  using assms
  by (auto simp add: spawnPatchModel_def callGateway_def failed_def thinking_registers
      resolvedModel_truthy Let_def intro!: thinking_trace_mono split: sum.splits if_splits)

lemma depth_registers:
  assumes "status (fst (spawnPatchDepth env cfg ps ctx k w)) = Accepted"
  shows "registeredAs env cfg ps ctx k (spawnPatchDepth env cfg ps ctx k w)
         \<and> GatewayCall (modelPatchCall k (the (resolvedModel env cfg ps ctx)))
             \<in> set (trace (snd (spawnPatchDepth env cfg ps ctx k w)))"
  using assms
  by (auto simp add: spawnPatchDepth_def callGateway_def failed_def model_registers
      split: sum.splits)

lemma spawn_admitted_eq:
  assumes "status (fst (spawnSubagentDirect env cfg ps ctx w)) = Accepted"
  shows "spawnSubagentDirect env cfg ps ctx w =
           spawnPatchDepth env cfg ps ctx
             (''agent:'' @ targetAgentId env cfg ps ctx @ '':subagent:''
                @ uuidSource env (uuidsDrawn w))
             (w\<lparr>uuidsDrawn := Suc (uuidsDrawn w)\<rparr>)"
  using assms
  by (auto simp add: spawnSubagentDirect_def randomUUID_def forbidden_def failed_def Let_def
      split: if_splits prod.splits)

lemma spawn_registers:
  assumes "status (fst (spawnSubagentDirect env cfg ps ctx w)) = Accepted"
  shows "\<exists>k. registeredAs env cfg ps ctx k (spawnSubagentDirect env cfg ps ctx w)
         \<and> GatewayCall (modelPatchCall k (the (resolvedModel env cfg ps ctx)))
             \<in> set (trace (snd (spawnSubagentDirect env cfg ps ctx w)))"
proof -
  note eq = spawn_admitted_eq [OF assms]
  from assms have "status (fst (spawnPatchDepth env cfg ps ctx
             (''agent:'' @ targetAgentId env cfg ps ctx @ '':subagent:''
                @ uuidSource env (uuidsDrawn w))
             (w\<lparr>uuidsDrawn := Suc (uuidsDrawn w)\<rparr>))) = Accepted"
    by (simp only: eq)
  from depth_registers [OF this] show ?thesis
    by (simp only: eq) blast
qed

text \<open>
  Claim C5 (model resolution priority). The resolved model of \<open>spawnSubagentDirect\<close> is the
  first candidate that is not empty after trimming, in the order: the explicit override of
  the request, the target agent's configured subagents model, the global subagent default
  model, the global default model (\<open>agents.defaults.model.primary\<close>), and the runtime default
  \<open>provider/model\<close> of the target agent; a candidate that holds white space only (spaces,
  tabs, line ends, no-break spaces and the other white space of \<open>trim\<close>) is skipped. It is
  the effective model of the spawned child: an accepted spawn has issued the call
  \<open>sessions.patch\<close> that sets the model of the child session to it, and has registered the
  run with it.
\<close>

theorem model_resolution_priority:
  "resolvedModel env cfg ps ctx =
     firstNonEmpty
       [p_model ps,
        modelCandidateText
          (case resolveAgentConfig env cfg (targetAgentId env cfg ps ctx) of
             None \<Rightarrow> JUndefined | Some sa \<Rightarrow> sa_model sa),
        modelCandidateText
          (case cfg_subagents cfg of None \<Rightarrow> JUndefined | Some sd \<Rightarrow> sd_model sd),
        modelCandidateText (cfg_modelPrimary cfg),
        Some (fst (resolveDefaultModelForAgent env cfg (targetAgentId env cfg ps ctx)) @ ''/''
              @ snd (resolveDefaultModelForAgent env cfg (targetAgentId env cfg ps ctx)))]
   \<and> (status (fst (spawnSubagentDirect env cfg ps ctx w)) = Accepted \<longrightarrow>
        (\<exists>k. res_childSessionKey (fst (spawnSubagentDirect env cfg ps ctx w)) = Some k
           \<and> GatewayCall \<lparr>rpcMethod = ''sessions.patch'',
                          params = [(''key'', JStr k),
                                    (''model'', JStr (the (resolvedModel env cfg ps ctx)))],
                          timeoutMs = Some 10000\<rparr>
               \<in> set (trace (snd (spawnSubagentDirect env cfg ps ctx w)))
           \<and> (\<exists>r \<in> set (subagentRuns (snd (spawnSubagentDirect env cfg ps ctx w))).
                 Some (runId r) = res_runId (fst (spawnSubagentDirect env cfg ps ctx w))
                 \<and> childSessionKey r = k
                 \<and> model r = resolvedModel env cfg ps ctx)))
   \<and> firstNonEmpty [] = None
   \<and> firstNonEmpty (None # cs) = firstNonEmpty cs
   \<and> (trim c = [] \<longrightarrow> firstNonEmpty (Some c # cs) = firstNonEmpty cs)
   \<and> (trim c \<noteq> [] \<longrightarrow> firstNonEmpty (Some c # cs) = Some (trim c))
   \<and> (set c \<subseteq> set '' '' \<union> {CHR 0x09, CHR 0x0A, CHR 0x0B, CHR 0x0C, CHR 0x0D} \<longrightarrow> trim c = [])
   \<and> trim [CHR 0xC2, CHR 0xA0] = []"
proof (intro conjI impI)
  show "resolvedModel env cfg ps ctx =
     firstNonEmpty
       [p_model ps,
        modelCandidateText
          (case resolveAgentConfig env cfg (targetAgentId env cfg ps ctx) of
             None \<Rightarrow> JUndefined | Some sa \<Rightarrow> sa_model sa),
        modelCandidateText
          (case cfg_subagents cfg of None \<Rightarrow> JUndefined | Some sd \<Rightarrow> sd_model sd),
        modelCandidateText (cfg_modelPrimary cfg),
        Some (fst (resolveDefaultModelForAgent env cfg (targetAgentId env cfg ps ctx)) @ ''/''
              @ snd (resolveDefaultModelForAgent env cfg (targetAgentId env cfg ps ctx)))]"
    by (rule resolvedModel_firstNonEmpty)
  show "firstNonEmpty [] = None" and "firstNonEmpty (None # cs) = firstNonEmpty cs"
    by simp_all
  show "trim [CHR 0xC2, CHR 0xA0] = []"
    by code_simp
next
  assume "status (fst (spawnSubagentDirect env cfg ps ctx w)) = Accepted"
  from spawn_registers [OF this]
  show "\<exists>k. res_childSessionKey (fst (spawnSubagentDirect env cfg ps ctx w)) = Some k
           \<and> GatewayCall \<lparr>rpcMethod = ''sessions.patch'',
                          params = [(''key'', JStr k),
                                    (''model'', JStr (the (resolvedModel env cfg ps ctx)))],
                          timeoutMs = Some 10000\<rparr>
               \<in> set (trace (snd (spawnSubagentDirect env cfg ps ctx w)))
           \<and> (\<exists>r \<in> set (subagentRuns (snd (spawnSubagentDirect env cfg ps ctx w))).
                 Some (runId r) = res_runId (fst (spawnSubagentDirect env cfg ps ctx w))
                 \<and> childSessionKey r = k
                 \<and> model r = resolvedModel env cfg ps ctx)"
    by (auto simp add: registeredAs_def modelPatchCall_def)
next
  assume "trim c = []"
  then show "firstNonEmpty (Some c # cs) = firstNonEmpty cs" by simp
next
  assume "trim c \<noteq> []"
  then show "firstNonEmpty (Some c # cs) = Some (trim c)" by simp
next
  assume "set c \<subseteq> set '' '' \<union> {CHR 0x09, CHR 0x0A, CHR 0x0B, CHR 0x0C, CHR 0x0D}"
  then show "trim c = []"
    by (rule trim_ascii_space)
qed

theorem model_resolution_priority_witness:
  "resolvedModel
     (configuredEnv \<lparr>sa_allowAgents = None,
                      sa_model = JObj [(''primary'', JStr '' openai/gpt-4o '')],
                      sa_thinking = JUndefined\<rparr>)
     (exampleCfg\<lparr>cfg_modelPrimary := JStr ''anthropic/claude-opus''\<rparr>)
     (exampleParams\<lparr>p_model := Some ''   ''\<rparr>) (exampleCtx ''agent:main:main'')
     = Some ''openai/gpt-4o''
   \<and> resolvedModel exampleEnv exampleCfg
       (exampleParams\<lparr>p_model := Some [CHR 0xC2, CHR 0xA0]\<rparr>) (exampleCtx ''agent:main:main'')
     = Some ''anthropic/claude''
   \<and> status (fst (spawnSubagentDirect exampleEnv exampleCfg
                     (exampleParams\<lparr>p_model := Some '' openai/gpt-4o''\<rparr>)
                     (exampleCtx ''agent:main:main'') (exampleWorld []))) = Accepted
   \<and> (\<exists>k. res_childSessionKey (fst (spawnSubagentDirect exampleEnv exampleCfg
                     (exampleParams\<lparr>p_model := Some '' openai/gpt-4o''\<rparr>)
                     (exampleCtx ''agent:main:main'') (exampleWorld []))) = Some k
         \<and> GatewayCall \<lparr>rpcMethod = ''sessions.patch'',
                        params = [(''key'', JStr k), (''model'', JStr ''openai/gpt-4o'')],
                        timeoutMs = Some 10000\<rparr>
             \<in> set (trace (snd (spawnSubagentDirect exampleEnv exampleCfg
                     (exampleParams\<lparr>p_model := Some '' openai/gpt-4o''\<rparr>)
                     (exampleCtx ''agent:main:main'') (exampleWorld []))))
         \<and> (\<exists>r \<in> set (subagentRuns (snd (spawnSubagentDirect exampleEnv exampleCfg
                     (exampleParams\<lparr>p_model := Some '' openai/gpt-4o''\<rparr>)
                     (exampleCtx ''agent:main:main'') (exampleWorld [])))).
               Some (runId r) = res_runId (fst (spawnSubagentDirect exampleEnv exampleCfg
                     (exampleParams\<lparr>p_model := Some '' openai/gpt-4o''\<rparr>)
                     (exampleCtx ''agent:main:main'') (exampleWorld [])))
               \<and> childSessionKey r = k \<and> model r = Some ''openai/gpt-4o''))
   \<and> trim ''   '' = []
   \<and> firstNonEmpty [Some ''   '', None, Some '' a/b ''] = Some ''a/b''"
proof -
  let ?E = "configuredEnv \<lparr>sa_allowAgents = None,
                      sa_model = JObj [(''primary'', JStr '' openai/gpt-4o '')],
                      sa_thinking = JUndefined\<rparr>"
  let ?C = "exampleCfg\<lparr>cfg_modelPrimary := JStr ''anthropic/claude-opus''\<rparr>"
  let ?X = "exampleCtx ''agent:main:main''"
  let ?P = "exampleParams\<lparr>p_model := Some '' openai/gpt-4o''\<rparr>"
  have trims: "trim ''   '' = []" "trim '' openai/gpt-4o '' = ''openai/gpt-4o''"
    "trim '' openai/gpt-4o'' = ''openai/gpt-4o''" "trim [CHR 0xC2, CHR 0xA0] = []"
    "trim '' a/b '' \<noteq> []" "trim '' a/b '' = ''a/b''"
    by code_simp+
  note T = model_resolution_priority
  have one: "resolvedModel ?E ?C (exampleParams\<lparr>p_model := Some ''   ''\<rparr>) ?X = Some ''openai/gpt-4o''"
    using T [where env = ?E and cfg = ?C
        and ps = "exampleParams\<lparr>p_model := Some ''   ''\<rparr>" and ctx = ?X and w = "exampleWorld []",
        THEN conjunct1]
    by (simp add: configuredEnv_def example_simps modelCandidateText_def string_simps trims)
  have nbsp: "resolvedModel exampleEnv exampleCfg
       (exampleParams\<lparr>p_model := Some [CHR 0xC2, CHR 0xA0]\<rparr>) ?X = Some ''anthropic/claude''"
    using T [where env = exampleEnv and cfg = exampleCfg
        and ps = "exampleParams\<lparr>p_model := Some [CHR 0xC2, CHR 0xA0]\<rparr>" and ctx = ?X
        and w = "exampleWorld []", THEN conjunct1]
    by (simp add: example_simps modelCandidateText_def string_simps trims)
  have acc: "status (fst (spawnSubagentDirect exampleEnv exampleCfg ?P ?X (exampleWorld []))) = Accepted"
    by (intro accepting_gateway_accepts)
       (simp_all add: example_simps spawn_local_simps thinkingCandidateRaw_def
          resolvedThinkingDefaultRaw_def)
  have res: "resolvedModel exampleEnv exampleCfg ?P ?X = Some ''openai/gpt-4o''"
    using T [where env = exampleEnv and cfg = exampleCfg
        and ps = ?P and ctx = ?X and w = "exampleWorld []", THEN conjunct1]
    by (simp add: example_simps modelCandidateText_def string_simps trims)
  have two: "\<exists>k. res_childSessionKey (fst (spawnSubagentDirect exampleEnv exampleCfg ?P ?X
                     (exampleWorld []))) = Some k
         \<and> GatewayCall \<lparr>rpcMethod = ''sessions.patch'',
                        params = [(''key'', JStr k), (''model'', JStr ''openai/gpt-4o'')],
                        timeoutMs = Some 10000\<rparr>
             \<in> set (trace (snd (spawnSubagentDirect exampleEnv exampleCfg ?P ?X (exampleWorld []))))
         \<and> (\<exists>r \<in> set (subagentRuns (snd (spawnSubagentDirect exampleEnv exampleCfg ?P ?X
                     (exampleWorld [])))).
               Some (runId r) = res_runId (fst (spawnSubagentDirect exampleEnv exampleCfg ?P ?X
                     (exampleWorld [])))
               \<and> childSessionKey r = k \<and> model r = Some ''openai/gpt-4o'')"
    using T [where env = exampleEnv and cfg = exampleCfg
        and ps = ?P and ctx = ?X and w = "exampleWorld []", THEN conjunct2, THEN conjunct1,
        rule_format, OF acc]
    by (simp add: res)
  have sp: "set ''   '' \<subseteq> set '' '' \<union> {CHR 0x09, CHR 0x0A, CHR 0x0B, CHR 0x0C, CHR 0x0D}"
    by simp
  have three: "trim ''   '' = []"
    using T [where c = "''   ''", THEN conjunct2, THEN conjunct2, THEN conjunct2, THEN conjunct2,
        THEN conjunct2, THEN conjunct2, THEN conjunct1, THEN mp, OF sp] .
  have four: "firstNonEmpty [Some ''   '', None, Some '' a/b ''] = Some ''a/b''"
    using T [where c = "''   ''" and cs = "[None, Some '' a/b '']", THEN conjunct2, THEN conjunct2,
        THEN conjunct2, THEN conjunct2, THEN conjunct1, THEN mp, OF three]
      T [where c = "'' a/b ''" and cs = "[]", THEN conjunct2, THEN conjunct2,
        THEN conjunct2, THEN conjunct2, THEN conjunct2, THEN conjunct1, THEN mp, OF trims(5)]
      T [where cs = "[Some '' a/b '']", THEN conjunct2, THEN conjunct2, THEN conjunct2, THEN conjunct1]
    by (simp add: trims)
  from one nbsp acc two three four show ?thesis by blast
qed

text \<open>
  Claim C6 (thinking-level validation before side effects), as stated, promises the
  \<open>error\<close> status for every request whose thinking token is present and unknown. The
  admission checks come first in the code: a request from a session at the depth limit
  whose thinking token is \<open>bogus\<close> is \<open>forbidden\<close>, not an \<open>error\<close>.
\<close>

theorem thinking_validation_counterexample:
  "truthyStr (thinkingCandidateRaw exampleEnv exampleCfg
                (exampleParams\<lparr>p_thinking := Some ''bogus''\<rparr>) (exampleCtx ''agent:main:subagent:x''))
   \<and> normalizeThinkLevel exampleEnv ''bogus'' = None
   \<and> status (fst (spawnSubagentDirect exampleEnv exampleCfg
                     (exampleParams\<lparr>p_thinking := Some ''bogus''\<rparr>)
                     (exampleCtx ''agent:main:subagent:x'') (exampleWorld []))) = Forbidden
   \<and> status (fst (spawnSubagentDirect exampleEnv exampleCfg
                     (exampleParams\<lparr>p_thinking := Some ''bogus''\<rparr>)
                     (exampleCtx ''agent:main:subagent:x'') (exampleWorld []))) \<noteq> Error"
  by (simp add: spawnSubagentDirect_def forbidden_def thinkingCandidateRaw_def example_simps
      spawn_local_simps string_simps)

text \<open>
  Claim C6, amended. If a thinking token is present (the explicit override or, when no
  override is given, the per-agent or global subagent default) and it does not normalize to
  a known thinking level, then \<open>spawnSubagentDirect\<close> has made no gateway call and no
  registry change and the result is not accepted; when the request passes the depth,
  fan-out and allowlist checks the result is \<open>error\<close> with the message that quotes the
  token and lists the valid levels (no child session key, no run id); otherwise the result
  is \<open>forbidden\<close>.
\<close>

theorem thinking_validation_before_side_effects:
  assumes "truthyStr (thinkingCandidateRaw env cfg ps ctx)"
    and "\<not> truthyStr (normalizeThinkLevel env (the (thinkingCandidateRaw env cfg ps ctx)))"
  shows "trace (snd (spawnSubagentDirect env cfg ps ctx w)) = trace w
     \<and> subagentRuns (snd (spawnSubagentDirect env cfg ps ctx w)) = subagentRuns w
     \<and> status (fst (spawnSubagentDirect env cfg ps ctx w)) \<noteq> Accepted
     \<and> (callerDepth env cfg ctx < maxSpawnDepth cfg
          \<and> activeChildren env cfg ctx w < maxChildren cfg
          \<and> agentAllowed env cfg ps ctx
        \<longrightarrow> fst (spawnSubagentDirect env cfg ps ctx w) =
              \<lparr>status = Error, res_childSessionKey = None, res_runId = None,
                modelApplied = None, warning = None,
                error = Some (''Invalid thinking level \"'' @ the (thinkingCandidateRaw env cfg ps ctx)
                              @ ''\". Use one of: ''
                              @ formatThinkingLevels env
                                  (fst (splitModelRef (resolvedModel env cfg ps ctx)))
                                  (snd (splitModelRef (resolvedModel env cfg ps ctx)))
                              @ ''.'')\<rparr>)
     \<and> (\<not> (callerDepth env cfg ctx < maxSpawnDepth cfg
             \<and> activeChildren env cfg ctx w < maxChildren cfg
             \<and> agentAllowed env cfg ps ctx)
        \<longrightarrow> status (fst (spawnSubagentDirect env cfg ps ctx w)) = Forbidden)"
proof -
  from assms have bad: "truthyStr (thinkingCandidateRaw env cfg ps ctx)
                        \<and> \<not> truthyStr (thinkingOverride env cfg ps ctx)"
    by (simp add: thinkingOverride_def)
  show ?thesis
    using bad
    by (auto simp add: spawnSubagentDirect_def randomUUID_def forbidden_def failed_def
        invalidThinkingText_def Let_def split_beta)
qed


theorem thinking_validation_before_side_effects_witness:
  "truthyStr (thinkingCandidateRaw exampleEnv exampleCfg
                (exampleParams\<lparr>p_thinking := Some ''bogus''\<rparr>) (exampleCtx ''agent:main:main''))
   \<and> \<not> truthyStr (normalizeThinkLevel exampleEnv ''bogus'')
   \<and> callerDepth exampleEnv exampleCfg (exampleCtx ''agent:main:main'') < maxSpawnDepth exampleCfg
   \<and> activeChildren exampleEnv exampleCfg (exampleCtx ''agent:main:main'') (exampleWorld [])
       < maxChildren exampleCfg
   \<and> agentAllowed exampleEnv exampleCfg (exampleParams\<lparr>p_thinking := Some ''bogus''\<rparr>)
        (exampleCtx ''agent:main:main'')
   \<and> fst (spawnSubagentDirect exampleEnv exampleCfg (exampleParams\<lparr>p_thinking := Some ''bogus''\<rparr>)
             (exampleCtx ''agent:main:main'') (exampleWorld [])) =
       \<lparr>status = Error, res_childSessionKey = None, res_runId = None,
         modelApplied = None, warning = None,
         error = Some ''Invalid thinking level \"bogus\". Use one of: off, low, medium, high.''\<rparr>
   \<and> trace (snd (spawnSubagentDirect exampleEnv exampleCfg
                    (exampleParams\<lparr>p_thinking := Some ''bogus''\<rparr>)
                    (exampleCtx ''agent:main:main'') (exampleWorld []))) = []
   \<and> subagentRuns (snd (spawnSubagentDirect exampleEnv exampleCfg
                    (exampleParams\<lparr>p_thinking := Some ''bogus''\<rparr>)
                    (exampleCtx ''agent:main:main'') (exampleWorld []))) = []
   \<and> thinkingCandidateRaw
        (configuredEnv \<lparr>sa_allowAgents = None, sa_model = JUndefined, sa_thinking = JStr ''ultra''\<rparr>)
        exampleCfg exampleParams (exampleCtx ''agent:main:main'') = Some ''ultra''
   \<and> status (fst (spawnSubagentDirect
        (configuredEnv \<lparr>sa_allowAgents = None, sa_model = JUndefined, sa_thinking = JStr ''ultra''\<rparr>)
        exampleCfg exampleParams (exampleCtx ''agent:main:main'') (exampleWorld []))) = Error
   \<and> trace (snd (spawnSubagentDirect
        (configuredEnv \<lparr>sa_allowAgents = None, sa_model = JUndefined, sa_thinking = JStr ''ultra''\<rparr>)
        exampleCfg exampleParams (exampleCtx ''agent:main:main'') (exampleWorld []))) = []"
proof -
  let ?P = "exampleParams\<lparr>p_thinking := Some ''bogus''\<rparr>"
  let ?X = "exampleCtx ''agent:main:main''"
  let ?E = "configuredEnv \<lparr>sa_allowAgents = None, sa_model = JUndefined, sa_thinking = JStr ''ultra''\<rparr>"
  have c1: "thinkingCandidateRaw exampleEnv exampleCfg ?P ?X = Some ''bogus''"
    by (simp add: thinkingCandidateRaw_def exampleParams_def)
  have n1: "normalizeThinkLevel exampleEnv ''bogus'' = None"
    by (simp add: exampleEnv_def string_simps)
  have adm1: "callerDepth exampleEnv exampleCfg ?X < maxSpawnDepth exampleCfg"
    "activeChildren exampleEnv exampleCfg ?X (exampleWorld []) < maxChildren exampleCfg"
    "agentAllowed exampleEnv exampleCfg ?P ?X"
    by (simp_all add: example_simps spawn_local_simps)
  have m1: "splitModelRef (resolvedModel exampleEnv exampleCfg ?P ?X) = (Some ''anthropic'', Some ''claude'')"
    by (simp add: resolvedModel_firstNonEmpty example_simps spawn_local_simps modelCandidateText_def
        splitModelRef_def string_simps)
  have f1: "formatThinkingLevels exampleEnv = (\<lambda>provider mdl. ''off, low, medium, high'')"
    by (simp add: exampleEnv_def)
  note T1 = thinking_validation_before_side_effects [where env = exampleEnv and cfg = exampleCfg
      and ps = ?P and ctx = ?X and w = "exampleWorld []"]
  have r1: "fst (spawnSubagentDirect exampleEnv exampleCfg ?P ?X (exampleWorld [])) =
       \<lparr>status = Error, res_childSessionKey = None, res_runId = None,
         modelApplied = None, warning = None,
         error = Some ''Invalid thinking level \"bogus\". Use one of: off, low, medium, high.''\<rparr>
     \<and> trace (snd (spawnSubagentDirect exampleEnv exampleCfg ?P ?X (exampleWorld []))) = []
     \<and> subagentRuns (snd (spawnSubagentDirect exampleEnv exampleCfg ?P ?X (exampleWorld []))) = []"
    using T1 adm1 by (simp add: c1 n1 m1 f1 exampleWorld_def)
  have c2: "thinkingCandidateRaw ?E exampleCfg exampleParams ?X = Some ''ultra''"
    by (simp add: thinkingCandidateRaw_def resolvedThinkingDefaultRaw_def configuredEnv_def
        example_simps spawn_local_simps string_simps)
  have n2: "normalizeThinkLevel ?E ''ultra'' = None"
    by (simp add: configuredEnv_def exampleEnv_def string_simps)
  have adm2: "callerDepth ?E exampleCfg ?X < maxSpawnDepth exampleCfg"
    "activeChildren ?E exampleCfg ?X (exampleWorld []) < maxChildren exampleCfg"
    "agentAllowed ?E exampleCfg exampleParams ?X"
    by (simp_all add: configuredEnv_def example_simps spawn_local_simps)
  note T2 = thinking_validation_before_side_effects [where env = ?E and cfg = exampleCfg
      and ps = exampleParams and ctx = ?X and w = "exampleWorld []"]
  have r2: "status (fst (spawnSubagentDirect ?E exampleCfg exampleParams ?X (exampleWorld []))) = Error
     \<and> trace (snd (spawnSubagentDirect ?E exampleCfg exampleParams ?X (exampleWorld []))) = []"
    using T2 adm2 by (simp add: c2 n2 exampleWorld_def)
  from r1 r2 adm1 show ?thesis
    by (simp add: c1 n1 c2)
qed

lemma includesStr_iff: "includesStr s pat \<longleftrightarrow> (\<exists>a b. s = a @ pat @ b)"
proof (induction s)
  case Nil
  show ?case by auto
next
  case (Cons c cs)
  show ?case
  proof
    assume "includesStr (c # cs) pat"
    then consider "prefix pat (c # cs)" | "includesStr cs pat" by auto
    then show "\<exists>a b. c # cs = a @ pat @ b"
    proof cases
      case 1
      then obtain b where "c # cs = pat @ b" by (auto simp add: prefix_def)
      then have "c # cs = [] @ pat @ b" by simp
      then show ?thesis by blast
    next
      case 2
      with Cons obtain a b where "cs = a @ pat @ b" by auto
      then have "c # cs = (c # a) @ pat @ b" by simp
      then show ?thesis by blast
    qed
  next
    assume "\<exists>a b. c # cs = a @ pat @ b"
    then obtain a b where ab: "c # cs = a @ pat @ b" by auto
    show "includesStr (c # cs) pat"
    proof (cases a)
      case Nil
      with ab have "prefix pat (c # cs)" by (simp add: prefix_def)
      then show ?thesis by simp
    next
      case (Cons x xs)
      with ab have "cs = xs @ pat @ b" by simp
      with Cons.IH have "includesStr cs pat" by blast
      then show ?thesis by simp
    qed
  qed
qed

text \<open>What an accepted result carries of the two mutable locals, from the thinking patch on.\<close>

lemma launch_result_fields:
  "status (fst (spawnLaunchRun env cfg ps ctx k ma mw w)) = Accepted \<longrightarrow>
     modelApplied (fst (spawnLaunchRun env cfg ps ctx k ma mw w)) = Some ma
     \<and> warning (fst (spawnLaunchRun env cfg ps ctx k ma mw w)) = mw"
  "status (fst (spawnLaunchRun env cfg ps ctx k ma mw w)) \<noteq> Accepted \<longrightarrow>
     warning (fst (spawnLaunchRun env cfg ps ctx k ma mw w)) = None
     \<and> modelApplied (fst (spawnLaunchRun env cfg ps ctx k ma mw w)) = None"
  by (simp_all add: spawnLaunchRun_def randomUUID_def callGateway_def failed_def Let_def
      resolvedModel_truthy split: sum.splits)

lemma thinking_result_fields:
  "status (fst (spawnPatchThinking env cfg ps ctx k ma mw w)) = Accepted \<longrightarrow>
     modelApplied (fst (spawnPatchThinking env cfg ps ctx k ma mw w)) = Some ma
     \<and> warning (fst (spawnPatchThinking env cfg ps ctx k ma mw w)) = mw"
  "status (fst (spawnPatchThinking env cfg ps ctx k ma mw w)) \<noteq> Accepted \<longrightarrow>
     warning (fst (spawnPatchThinking env cfg ps ctx k ma mw w)) = None
     \<and> modelApplied (fst (spawnPatchThinking env cfg ps ctx k ma mw w)) = None"
  by (simp_all add: spawnPatchThinking_def callGateway_def failed_def launch_result_fields
      split: option.splits sum.splits)

lemma thinking_accepts:
  assumes "\<forall>call. map_of (params call) ''model'' = None \<longrightarrow> (\<exists>resp. gateway env call = Inr resp)"
  shows "status (fst (spawnPatchThinking env cfg ps ctx k ma mw w)) = Accepted"
proof -
  have a: "gateway env (agentLaunchCall env cfg ps ctx k i) \<noteq> Inl e" for i e
    using assms [rule_format, of "agentLaunchCall env cfg ps ctx k i"]
    by (auto simp add: agentLaunchCall_def Let_def)
  have t: "gateway env (thinkingPatchCall k l) \<noteq> Inl e" for l e
    using assms [rule_format, of "thinkingPatchCall k l"]
    by (auto simp add: thinkingPatchCall_def)
  have launch: "status (fst (spawnLaunchRun env cfg ps ctx k ma mw v)) = Accepted" for v
    by (simp add: spawnLaunchRun_def randomUUID_def callGateway_def Let_def a split: sum.splits)
  show ?thesis
    by (simp add: spawnPatchThinking_def callGateway_def launch t split: option.splits sum.splits)
qed

text \<open>
  Claim C7 (recoverable model patch). Take a spawn that passes admission and validation and
  whose depth patch succeeds, and let the \<open>sessions.patch\<close> call that applies the resolved
  model fail with message \<open>m\<close>. The failure is recoverable exactly when \<open>m\<close> contains
  \<open>invalid model\<close> or \<open>model not allowed\<close>. If it is not, the spawn stops after these two
  calls with \<open>{status: "error", error: m, childSessionKey}\<close>. If it is, the spawn continues
  with the thinking patch, \<open>modelApplied\<close> being false and the warning being \<open>m\<close>: an
  accepted result carries \<open>modelApplied = false\<close> and \<open>warning = m\<close>, a result that is not
  accepted carries no warning, and the result is accepted when the gateway accepts the
  remaining calls.
\<close>

theorem recoverable_model_patch:
  assumes "callerDepth env cfg ctx < maxSpawnDepth cfg"
    and "activeChildren env cfg ctx w < maxChildren cfg"
    and "agentAllowed env cfg ps ctx"
    and "\<not> truthyStr (thinkingCandidateRaw env cfg ps ctx)
         \<or> truthyStr (thinkingOverride env cfg ps ctx)"
    and "k = ''agent:'' @ targetAgentId env cfg ps ctx @ '':subagent:''
               @ uuidSource env (uuidsDrawn w)"
    and "gateway env (depthPatchCall k (callerDepth env cfg ctx + 1)) = Inr ack"
    and "gateway env (modelPatchCall k (the (resolvedModel env cfg ps ctx))) = Inl err"
    and "w2 = w\<lparr>uuidsDrawn := Suc (uuidsDrawn w),
                trace := trace w @ [GatewayCall (depthPatchCall k (callerDepth env cfg ctx + 1)),
                                    GatewayCall (modelPatchCall k (the (resolvedModel env cfg ps ctx)))]\<rparr>"
  shows "(recoverable (errorMessageText err) \<longleftrightarrow>
            (\<exists>a b. errorMessageText err = a @ ''invalid model'' @ b)
            \<or> (\<exists>a b. errorMessageText err = a @ ''model not allowed'' @ b))
     \<and> (\<not> recoverable (errorMessageText err) \<longrightarrow>
          spawnSubagentDirect env cfg ps ctx w =
            (\<lparr>status = Error, res_childSessionKey = Some k, res_runId = None,
              modelApplied = None, warning = None, error = Some (errorMessageText err)\<rparr>, w2))
     \<and> (recoverable (errorMessageText err) \<longrightarrow>
          spawnSubagentDirect env cfg ps ctx w =
            spawnPatchThinking env cfg ps ctx k False (Some (errorMessageText err)) w2
          \<and> (status (fst (spawnSubagentDirect env cfg ps ctx w)) = Accepted \<longrightarrow>
               modelApplied (fst (spawnSubagentDirect env cfg ps ctx w)) = Some False
               \<and> warning (fst (spawnSubagentDirect env cfg ps ctx w)) = Some (errorMessageText err))
          \<and> (status (fst (spawnSubagentDirect env cfg ps ctx w)) \<noteq> Accepted \<longrightarrow>
               warning (fst (spawnSubagentDirect env cfg ps ctx w)) = None)
          \<and> ((\<forall>call. map_of (params call) ''model'' = None \<longrightarrow> (\<exists>resp. gateway env call = Inr resp))
               \<longrightarrow> status (fst (spawnSubagentDirect env cfg ps ctx w)) = Accepted))"
proof -
  have reach: "spawnSubagentDirect env cfg ps ctx w =
      spawnPatchDepth env cfg ps ctx k (w\<lparr>uuidsDrawn := Suc (uuidsDrawn w)\<rparr>)"
    using assms(1-5)
    by (auto simp add: spawnSubagentDirect_def randomUUID_def Let_def)
  have step: "spawnPatchDepth env cfg ps ctx k (w\<lparr>uuidsDrawn := Suc (uuidsDrawn w)\<rparr>) =
      (if \<not> recoverable (errorMessageText err)
       then (failed (errorMessageText err) (Some k) None, w2)
       else spawnPatchThinking env cfg ps ctx k False (Some (errorMessageText err)) w2)"
    using assms(6-8) resolvedModel_truthy [of env cfg ps ctx]
    by (simp add: spawnPatchDepth_def spawnPatchModel_def callGateway_def Let_def)
  show ?thesis
    by (simp add: reach step failed_def thinking_result_fields thinking_accepts
        recoverable_def includesStr_iff)
qed


lemma showNat_0: "showNat 0 = ''0''"
  by (simp add: showNat.simps digitChar_def)

theorem recoverable_model_patch_witness:
  "gateway (modelRejectingEnv (ThrownError ''boom''))
     (modelPatchCall ''agent:main:subagent:uuid-0'' ''anthropic/claude'') = Inl (ThrownError ''boom'')
   \<and> \<not> recoverable ''boom''
   \<and> spawnSubagentDirect (modelRejectingEnv (ThrownError ''boom'')) exampleCfg exampleParams
        (exampleCtx ''agent:main:main'') (exampleWorld []) =
       (\<lparr>status = Error, res_childSessionKey = Some ''agent:main:subagent:uuid-0'',
         res_runId = None, modelApplied = None, warning = None, error = Some ''boom''\<rparr>,
        \<lparr>subagentRuns = [],
         trace = [GatewayCall (depthPatchCall ''agent:main:subagent:uuid-0'' 1),
                  GatewayCall (modelPatchCall ''agent:main:subagent:uuid-0'' ''anthropic/claude'')],
         uuidsDrawn = 1, nowMs = 5000000\<rparr>)
   \<and> recoverable ''model not allowed: anthropic/claude''
   \<and> status (fst (spawnSubagentDirect
                     (modelRejectingEnv (ThrownError ''model not allowed: anthropic/claude''))
                     exampleCfg exampleParams (exampleCtx ''agent:main:main'') (exampleWorld [])))
       = Accepted
   \<and> modelApplied (fst (spawnSubagentDirect
                     (modelRejectingEnv (ThrownError ''model not allowed: anthropic/claude''))
                     exampleCfg exampleParams (exampleCtx ''agent:main:main'') (exampleWorld [])))
       = Some False
   \<and> warning (fst (spawnSubagentDirect
                     (modelRejectingEnv (ThrownError ''model not allowed: anthropic/claude''))
                     exampleCfg exampleParams (exampleCtx ''agent:main:main'') (exampleWorld [])))
       = Some ''model not allowed: anthropic/claude''"
proof -
  let ?X = "exampleCtx ''agent:main:main''"
  let ?k = "''agent:main:subagent:uuid-0''"
  have locals: "callerDepth (modelRejectingEnv e) exampleCfg ?X = 0"
    "maxSpawnDepth exampleCfg = 1" "maxChildren exampleCfg = 5"
    "activeChildren (modelRejectingEnv e) exampleCfg ?X (exampleWorld []) = 0"
    "agentAllowed (modelRejectingEnv e) exampleCfg exampleParams ?X"
    "\<not> truthyStr (thinkingCandidateRaw (modelRejectingEnv e) exampleCfg exampleParams ?X)"
    "targetAgentId (modelRejectingEnv e) exampleCfg exampleParams ?X = ''main''"
    "uuidSource (modelRejectingEnv e) (uuidsDrawn (exampleWorld [])) = ''uuid-0''"
    "resolvedModel (modelRejectingEnv e) exampleCfg exampleParams ?X = Some ''anthropic/claude''"
    for e
    by (simp_all add: modelRejectingEnv_def example_simps spawn_local_simps showNat_0
        thinkingCandidateRaw_def resolvedThinkingDefaultRaw_def resolvedModel_firstNonEmpty
        modelCandidateText_def string_simps)
  have gw: "gateway (modelRejectingEnv e) (depthPatchCall ?k 1) = Inr (JObj [])"
    "gateway (modelRejectingEnv e) (modelPatchCall ?k ''anthropic/claude'') = Inl e"
    "\<forall>call. map_of (params call) ''model'' = None
        \<longrightarrow> (\<exists>resp. gateway (modelRejectingEnv e) call = Inr resp)" for e
    by (simp_all add: modelRejectingEnv_def exampleEnv_def exampleGateway_def depthPatchCall_def
        modelPatchCall_def)
  have no: "\<not> recoverable ''boom''" and yes: "recoverable ''model not allowed: anthropic/claude''"
    by (simp_all add: recoverable_def)
  have h1: "callerDepth (modelRejectingEnv e) exampleCfg ?X < maxSpawnDepth exampleCfg"
    and h2: "activeChildren (modelRejectingEnv e) exampleCfg ?X (exampleWorld []) < maxChildren exampleCfg"
    and h4: "\<not> truthyStr (thinkingCandidateRaw (modelRejectingEnv e) exampleCfg exampleParams ?X)
             \<or> truthyStr (thinkingOverride (modelRejectingEnv e) exampleCfg exampleParams ?X)"
    and h5: "?k = ''agent:'' @ targetAgentId (modelRejectingEnv e) exampleCfg exampleParams ?X
                  @ '':subagent:'' @ uuidSource (modelRejectingEnv e) (uuidsDrawn (exampleWorld []))"
    and h6: "gateway (modelRejectingEnv e)
               (depthPatchCall ?k (callerDepth (modelRejectingEnv e) exampleCfg ?X + 1)) = Inr (JObj [])"
    and h7: "gateway (modelRejectingEnv e)
               (modelPatchCall ?k (the (resolvedModel (modelRejectingEnv e) exampleCfg exampleParams ?X)))
             = Inl e" for e
    by (simp_all add: locals gw(1,2))
  have w2: "exampleWorld []\<lparr>uuidsDrawn := Suc (uuidsDrawn (exampleWorld [])),
              trace := trace (exampleWorld []) @ [GatewayCall (depthPatchCall ?k (0 + 1)),
                                    GatewayCall (modelPatchCall ?k ''anthropic/claude'')]\<rparr>
            = \<lparr>subagentRuns = [],
               trace = [GatewayCall (depthPatchCall ?k 1),
                        GatewayCall (modelPatchCall ?k ''anthropic/claude'')],
               uuidsDrawn = 1, nowMs = 5000000\<rparr>"
    by (simp add: exampleWorld_def)
  note A = recoverable_model_patch [where ps = exampleParams and ack = "JObj []",
      OF h1 h2 locals(5) h4 h5 h6 h7 refl, of "ThrownError ''boom''"]
  note B = recoverable_model_patch [where ps = exampleParams and ack = "JObj []",
      OF h1 h2 locals(5) h4 h5 h6 h7 refl, of "ThrownError ''model not allowed: anthropic/claude''"]
  have a: "spawnSubagentDirect (modelRejectingEnv (ThrownError ''boom'')) exampleCfg exampleParams
        ?X (exampleWorld []) =
       (\<lparr>status = Error, res_childSessionKey = Some ?k,
         res_runId = None, modelApplied = None, warning = None, error = Some ''boom''\<rparr>,
        \<lparr>subagentRuns = [],
         trace = [GatewayCall (depthPatchCall ?k 1), GatewayCall (modelPatchCall ?k ''anthropic/claude'')],
         uuidsDrawn = 1, nowMs = 5000000\<rparr>)"
    using A no w2 by (simp add: locals(1,9))
  have b: "status (fst (spawnSubagentDirect
                     (modelRejectingEnv (ThrownError ''model not allowed: anthropic/claude''))
                     exampleCfg exampleParams ?X (exampleWorld []))) = Accepted
   \<and> modelApplied (fst (spawnSubagentDirect
                     (modelRejectingEnv (ThrownError ''model not allowed: anthropic/claude''))
                     exampleCfg exampleParams ?X (exampleWorld []))) = Some False
   \<and> warning (fst (spawnSubagentDirect
                     (modelRejectingEnv (ThrownError ''model not allowed: anthropic/claude''))
                     exampleCfg exampleParams ?X (exampleWorld [])))
       = Some ''model not allowed: anthropic/claude''"
  proof -
    have yes': "recoverable (errorMessageText (ThrownError ''model not allowed: anthropic/claude''))"
      using yes by simp
    note B' = B [THEN conjunct2, THEN conjunct2, THEN mp, OF yes']
    note acc = B' [THEN conjunct2, THEN conjunct2, THEN conjunct2, THEN mp, OF gw(3)]
    note fields = B' [THEN conjunct2, THEN conjunct1, THEN mp, OF acc]
    from acc fields show ?thesis by simp
  qed
  from a b no yes show ?thesis
    by (simp add: gw(2))
qed

section \<open>Properties of the command surface and of run ids\<close>

lemma launchedRunId_nonempty: "idem \<noteq> [] \<Longrightarrow> launchedRunId response idem \<noteq> []"
  by (simp add: launchedRunId_def split: json.splits)

lemma setRun_inv:
  assumes "runId r \<noteq> []" and "\<forall>x \<in> set rs. runId x \<noteq> []"
  shows "\<forall>x \<in> set (setRun r rs). runId x \<noteq> []"
  using assms by (auto simp add: setRun_def)

lemma inv_trace [simp]: "registryRunIdsNonEmpty (w\<lparr>trace := t\<rparr>) = registryRunIdsNonEmpty w"
  and inv_uuids [simp]: "registryRunIdsNonEmpty (w\<lparr>uuidsDrawn := n\<rparr>) = registryRunIdsNonEmpty w"
  by (simp_all add: registryRunIdsNonEmpty_def)

lemma inv_callGateway [simp]:
  "registryRunIdsNonEmpty (snd (callGateway env c w)) = registryRunIdsNonEmpty w"
  by (simp add: callGateway_def)

lemma inv_register:
  "rid \<noteq> [] \<Longrightarrow> registryRunIdsNonEmpty w \<Longrightarrow>
   registryRunIdsNonEmpty (registerSubagentRun rid ck rk ro dk t c l m tmo w)"
  unfolding registryRunIdsNonEmpty_def registerSubagentRun_def
  by (simp del: ball_simps) (rule setRun_inv, simp_all)

lemma inv_mark:
  "registryRunIdsNonEmpty w \<Longrightarrow> registryRunIdsNonEmpty (markSubagentRunForSteerRestart rid w)"
  by (auto simp add: registryRunIdsNonEmpty_def markSubagentRunForSteerRestart_def)

lemma inv_clear:
  "registryRunIdsNonEmpty w \<Longrightarrow> registryRunIdsNonEmpty (clearSubagentRunSteerRestart rid w)"
  by (auto simp add: registryRunIdsNonEmpty_def clearSubagentRunSteerRestart_def)

lemma inv_replace:
  "next \<noteq> [] \<Longrightarrow> registryRunIdsNonEmpty w \<Longrightarrow>
   registryRunIdsNonEmpty (replaceSubagentRunAfterSteer prev next fallback tmo w)"
  unfolding registryRunIdsNonEmpty_def replaceSubagentRunAfterSteer_def
  by (simp del: ball_simps) (rule setRun_inv, simp_all)

lemma inv_launch:
  assumes "\<forall>n. uuidSource env n \<noteq> []" and "registryRunIdsNonEmpty w"
  shows "registryRunIdsNonEmpty (snd (spawnLaunchRun env cfg ps ctx k ma mw w))"
  using assms
  by (simp add: spawnLaunchRun_def randomUUID_def callGateway_def Let_def inv_register
      launchedRunId_nonempty split: sum.splits)

lemma inv_thinking:
  assumes "\<forall>n. uuidSource env n \<noteq> []" and "registryRunIdsNonEmpty w"
  shows "registryRunIdsNonEmpty (snd (spawnPatchThinking env cfg ps ctx k ma mw w))"
  using assms
  by (simp add: spawnPatchThinking_def callGateway_def inv_launch split: option.splits sum.splits)

lemma inv_model:
  assumes "\<forall>n. uuidSource env n \<noteq> []" and "registryRunIdsNonEmpty w"
  shows "registryRunIdsNonEmpty (snd (spawnPatchModel env cfg ps ctx k w))"
  using assms
  by (simp add: spawnPatchModel_def callGateway_def inv_thinking Let_def split: sum.splits)

lemma inv_depth:
  assumes "\<forall>n. uuidSource env n \<noteq> []" and "registryRunIdsNonEmpty w"
  shows "registryRunIdsNonEmpty (snd (spawnPatchDepth env cfg ps ctx k w))"
  using assms
  by (simp add: spawnPatchDepth_def callGateway_def inv_model split: sum.splits)

lemma inv_spawn:
  assumes "\<forall>n. uuidSource env n \<noteq> []" and "registryRunIdsNonEmpty w"
  shows "registryRunIdsNonEmpty (snd (spawnSubagentDirect env cfg ps ctx w))"
  using assms
  by (simp add: spawnSubagentDirect_def randomUUID_def inv_depth Let_def split_beta)

text \<open>The run id of every result of the launch stage that has one.\<close>

lemma launch_runId:
  assumes "\<forall>n. uuidSource env n \<noteq> []"
  shows "res_runId (fst (spawnLaunchRun env cfg ps ctx k ma mw w)) \<noteq> None
         \<and> res_runId (fst (spawnLaunchRun env cfg ps ctx k ma mw w)) \<noteq> Some []"
  using assms
  by (simp add: spawnLaunchRun_def randomUUID_def callGateway_def failed_def Let_def
      launchedRunId_nonempty split: sum.splits)

lemma thinking_runId:
  assumes "\<forall>n. uuidSource env n \<noteq> []"
  shows "res_runId (fst (spawnPatchThinking env cfg ps ctx k ma mw w)) \<noteq> Some []
    \<and> (status (fst (spawnPatchThinking env cfg ps ctx k ma mw w)) = Accepted
         \<longrightarrow> res_runId (fst (spawnPatchThinking env cfg ps ctx k ma mw w)) \<noteq> None)"
  using assms launch_runId [OF assms]
  by (simp add: spawnPatchThinking_def callGateway_def failed_def split: option.splits sum.splits)

lemma model_runId:
  assumes "\<forall>n. uuidSource env n \<noteq> []"
  shows "res_runId (fst (spawnPatchModel env cfg ps ctx k w)) \<noteq> Some []
    \<and> (status (fst (spawnPatchModel env cfg ps ctx k w)) = Accepted
         \<longrightarrow> res_runId (fst (spawnPatchModel env cfg ps ctx k w)) \<noteq> None)"
  using thinking_runId [OF assms]
  by (simp add: spawnPatchModel_def callGateway_def failed_def Let_def split: sum.splits)

lemma depth_runId:
  assumes "\<forall>n. uuidSource env n \<noteq> []"
  shows "res_runId (fst (spawnPatchDepth env cfg ps ctx k w)) \<noteq> Some []
    \<and> (status (fst (spawnPatchDepth env cfg ps ctx k w)) = Accepted
         \<longrightarrow> res_runId (fst (spawnPatchDepth env cfg ps ctx k w)) \<noteq> None)"
  using model_runId [OF assms]
  by (simp add: spawnPatchDepth_def callGateway_def failed_def split: sum.splits)

lemma spawn_runId:
  assumes "\<forall>n. uuidSource env n \<noteq> []"
  shows "res_runId (fst (spawnSubagentDirect env cfg ps ctx w)) \<noteq> Some []
    \<and> (status (fst (spawnSubagentDirect env cfg ps ctx w)) = Accepted
         \<longrightarrow> res_runId (fst (spawnSubagentDirect env cfg ps ctx w)) \<noteq> None)"
  using depth_runId [OF assms]
  by (simp add: spawnSubagentDirect_def randomUUID_def forbidden_def failed_def Let_def split_beta)

text \<open>The command surface keeps the invariant.\<close>

lemma inv_steerInterrupt:
  "registryRunIdsNonEmpty w \<Longrightarrow> registryRunIdsNonEmpty (steerInterrupt env entry w)"
  by (simp add: steerInterrupt_def Let_def inv_mark abortEmbeddedPiRun_def
      clearSessionQueues_def split: option.splits)

lemma inv_sendAwaitReply:
  "registryRunIdsNonEmpty w \<Longrightarrow> registryRunIdsNonEmpty (snd (sendAwaitReply env entry rid w))"
  by (simp add: sendAwaitReply_def callGateway_def Let_def split: sum.splits)

lemma inv_launchSendOrSteer:
  assumes "\<forall>n. uuidSource env n \<noteq> []" and "registryRunIdsNonEmpty w"
  shows "registryRunIdsNonEmpty (snd (launchSendOrSteer env steer entry message w))"
  using assms
  by (simp add: launchSendOrSteer_def randomUUID_def callGateway_def Let_def inv_clear
      inv_replace inv_sendAwaitReply launchedRunId_nonempty split: sum.splits)

lemma inv_handleSendOrSteer:
  assumes "\<forall>n. uuidSource env n \<noteq> []" and "registryRunIdsNonEmpty w"
  shows "registryRunIdsNonEmpty (snd (handleSendOrSteer env steer pfx toks runs w))"
  using assms
  by (simp add: handleSendOrSteer_def Let_def inv_launchSendOrSteer inv_steerInterrupt
      split: option.splits)

lemma inv_handleLog:
  "registryRunIdsNonEmpty w \<Longrightarrow> registryRunIdsNonEmpty (snd (handleLog env toks runs w))"
  by (simp add: handleLog_def callGateway_def Let_def split: list.splits option.splits sum.splits)

lemma inv_handleSpawn:
  assumes "\<forall>n. uuidSource env n \<noteq> []" and "registryRunIdsNonEmpty w"
  shows "registryRunIdsNonEmpty (snd (handleSpawn env ps rk toks w))"
  using assms
  by (simp add: handleSpawn_def Let_def split_beta inv_spawn)

lemma inv_handler:
  assumes "\<forall>n. uuidSource env n \<noteq> []" and "registryRunIdsNonEmpty w"
  shows "registryRunIdsNonEmpty (snd (handleSubagentsCommand env ps allow w))"
  using assms
  by (simp add: handleSubagentsCommand_def Let_def inv_handleLog inv_handleSendOrSteer
      inv_handleSpawn split: option.splits)


lemma sendAwaitReply_waits:
  "GatewayCall (sendWaitCall rid) \<in> set (trace (snd (sendAwaitReply env entry rid w)))"
  by (simp add: sendAwaitReply_def callGateway_def Let_def split: sum.splits)

text \<open>
  Claim C10 (the run id is never empty). Provided the draws of \<open>crypto.randomUUID()\<close> are
  not empty strings (they are 36 characters long): the run id of a launch is the
  idempotency key whenever the response to \<open>agent\<close> holds no non-empty string \<open>runId\<close>; the
  key is the fresh UUID sent as \<open>idempotencyKey\<close> of the launch; no result of
  \<open>spawnSubagentDirect\<close> carries an empty run id and every accepted result carries one; the
  spawn engine and the whole command handler keep the registry free of records with an
  empty run id; and the run that the send/steer path launches has a non-empty run id,
  which is the id handed to \<open>replaceSubagentRunAfterSteer\<close> (steer) and to \<open>agent.wait\<close>
  (send).
\<close>

theorem run_id_never_empty:
  assumes "\<forall>n. uuidSource env n \<noteq> []"
  shows "((\<forall>r. getField response ''runId'' = JStr r \<longrightarrow> r = [])
            \<longrightarrow> launchedRunId response idem = idem)
     \<and> map_of (params (agentLaunchCall env cfg ps ctx k idem)) ''idempotencyKey'' = Some (JStr idem)
     \<and> (gateway env (agentLaunchCall env cfg ps ctx k (uuidSource env (uuidsDrawn w))) = Inr response
          \<longrightarrow> res_runId (fst (spawnLaunchRun env cfg ps ctx k ma mw w))
                = Some (launchedRunId response (uuidSource env (uuidsDrawn w))))
     \<and> res_runId (fst (spawnSubagentDirect env cfg ps ctx w)) \<noteq> Some []
     \<and> (status (fst (spawnSubagentDirect env cfg ps ctx w)) = Accepted
          \<longrightarrow> (\<exists>rid. res_runId (fst (spawnSubagentDirect env cfg ps ctx w)) = Some rid \<and> rid \<noteq> []))
     \<and> (registryRunIdsNonEmpty w
          \<longrightarrow> registryRunIdsNonEmpty (snd (spawnSubagentDirect env cfg ps ctx w)))
     \<and> (registryRunIdsNonEmpty w
          \<longrightarrow> registryRunIdsNonEmpty (snd (handleSubagentsCommand env cps allowTextCommands w)))
     \<and> (gateway env (sendCall env entry message (uuidSource env (uuidsDrawn w))) = Inr response
          \<longrightarrow> launchedRunId response (uuidSource env (uuidsDrawn w)) \<noteq> []
              \<and> ReplaceAfterSteer (runId entry) (launchedRunId response (uuidSource env (uuidsDrawn w)))
                  \<in> set (trace (snd (launchSendOrSteer env True entry message w)))
              \<and> GatewayCall (sendWaitCall (launchedRunId response (uuidSource env (uuidsDrawn w))))
                  \<in> set (trace (snd (launchSendOrSteer env False entry message w))))"
proof (intro conjI impI)
  assume "\<forall>r. getField response ''runId'' = JStr r \<longrightarrow> r = []"
  then show "launchedRunId response idem = idem"
    by (auto simp add: launchedRunId_def split: json.splits)
next
  show "map_of (params (agentLaunchCall env cfg ps ctx k idem)) ''idempotencyKey'' = Some (JStr idem)"
    by (simp add: agentLaunchCall_def Let_def)
next
  assume "gateway env (agentLaunchCall env cfg ps ctx k (uuidSource env (uuidsDrawn w))) = Inr response"
  then show "res_runId (fst (spawnLaunchRun env cfg ps ctx k ma mw w))
                = Some (launchedRunId response (uuidSource env (uuidsDrawn w)))"
    by (simp add: spawnLaunchRun_def randomUUID_def callGateway_def Let_def)
next
  show "res_runId (fst (spawnSubagentDirect env cfg ps ctx w)) \<noteq> Some []"
    using spawn_runId [OF assms] by simp
next
  assume "status (fst (spawnSubagentDirect env cfg ps ctx w)) = Accepted"
  with spawn_runId [OF assms, of cfg ps ctx w]
  show "\<exists>rid. res_runId (fst (spawnSubagentDirect env cfg ps ctx w)) = Some rid \<and> rid \<noteq> []"
    by (cases "res_runId (fst (spawnSubagentDirect env cfg ps ctx w))") auto
next
  assume "registryRunIdsNonEmpty w"
  with assms show "registryRunIdsNonEmpty (snd (spawnSubagentDirect env cfg ps ctx w))"
    by (rule inv_spawn)
next
  assume "registryRunIdsNonEmpty w"
  with assms show "registryRunIdsNonEmpty (snd (handleSubagentsCommand env cps allowTextCommands w))"
    by (rule inv_handler)
next
  assume ok: "gateway env (sendCall env entry message (uuidSource env (uuidsDrawn w))) = Inr response"
  show "launchedRunId response (uuidSource env (uuidsDrawn w)) \<noteq> []"
    using assms by (simp add: launchedRunId_nonempty)
  from ok show "ReplaceAfterSteer (runId entry) (launchedRunId response (uuidSource env (uuidsDrawn w)))
                  \<in> set (trace (snd (launchSendOrSteer env True entry message w)))"
    by (simp add: launchSendOrSteer_def randomUUID_def callGateway_def Let_def
        replaceSubagentRunAfterSteer_def)
  from ok show "GatewayCall (sendWaitCall (launchedRunId response (uuidSource env (uuidsDrawn w))))
                  \<in> set (trace (snd (launchSendOrSteer env False entry message w)))"
    by (simp add: launchSendOrSteer_def randomUUID_def callGateway_def Let_def sendAwaitReply_waits)
qed


lemma silent_spawn_runId:
  "res_runId (fst (spawnSubagentDirect silentEnv exampleCfg exampleParams
                     (exampleCtx ''agent:main:main'') (exampleWorld []))) = Some ''uuid-1''"
  by code_simp

lemma silent_steer_runs:
  "map runId (subagentRuns (snd (handleSubagentsCommand silentEnv
      (exampleCommand ''/steer 1 faster'') True (exampleWorld mixedRuns))))
   = [''run-old'', ''run-a'', ''run-done'', ''uuid-0'']"
  by code_simp

theorem run_id_never_empty_witness:
  "(\<forall>n. uuidSource silentEnv n \<noteq> [])
   \<and> launchedRunId (JObj []) ''uuid-1'' = ''uuid-1''
   \<and> status (fst (spawnSubagentDirect silentEnv exampleCfg exampleParams
                     (exampleCtx ''agent:main:main'') (exampleWorld []))) = Accepted
   \<and> res_runId (fst (spawnSubagentDirect silentEnv exampleCfg exampleParams
                     (exampleCtx ''agent:main:main'') (exampleWorld []))) = Some ''uuid-1''
   \<and> registryRunIdsNonEmpty (exampleWorld mixedRuns)
   \<and> registryRunIdsNonEmpty (snd (spawnSubagentDirect silentEnv exampleCfg exampleParams
                     (exampleCtx ''agent:main:main'') (exampleWorld mixedRuns)))
   \<and> registryRunIdsNonEmpty (snd (handleSubagentsCommand silentEnv
        (exampleCommand ''/steer 1 faster'') True (exampleWorld mixedRuns)))
   \<and> map runId (subagentRuns (snd (handleSubagentsCommand silentEnv
        (exampleCommand ''/steer 1 faster'') True (exampleWorld mixedRuns))))
       = [''run-old'', ''run-a'', ''run-done'', ''uuid-0'']"
proof -
  let ?X = "exampleCtx ''agent:main:main''"
  have u: "\<forall>n. uuidSource silentEnv n \<noteq> []"
    by (simp add: silentEnv_def exampleEnv_def)
  have inv: "registryRunIdsNonEmpty (exampleWorld mixedRuns)"
    by (simp add: registryRunIdsNonEmpty_def example_simps)
  have g: "\<forall>r. getField (JObj []) ''runId'' = JStr r \<longrightarrow> r = []"
    by simp
  have acc: "status (fst (spawnSubagentDirect silentEnv exampleCfg exampleParams ?X (exampleWorld [])))
               = Accepted"
    by (intro accepting_gateway_accepts)
       (simp_all add: silentEnv_def example_simps spawn_local_simps thinkingCandidateRaw_def
          resolvedThinkingDefaultRaw_def)
  note T = run_id_never_empty [OF u, where response = "JObj []" and idem = "''uuid-1''"
      and cfg = exampleCfg and ps = exampleParams and ctx = ?X and w = "exampleWorld mixedRuns"
      and cps = "exampleCommand ''/steer 1 faster''" and allowTextCommands = True]
  from T g have a: "launchedRunId (JObj []) ''uuid-1'' = ''uuid-1''"
    by blast
  from T inv have b: "registryRunIdsNonEmpty (snd (spawnSubagentDirect silentEnv exampleCfg
                        exampleParams ?X (exampleWorld mixedRuns)))"
    by blast
  from T inv have c: "registryRunIdsNonEmpty (snd (handleSubagentsCommand silentEnv
        (exampleCommand ''/steer 1 faster'') True (exampleWorld mixedRuns)))"
    by blast
  from u a acc silent_spawn_runId inv b c silent_steer_runs show ?thesis
    by blast
qed

























text \<open>
  Claim C9 (log limit bounds) on the code. The limit is read from the first token of
  \<open>restTokens\<close> that consists of digits (lines 472-473), and \<open>restTokens\<close> still holds the
  target. With an index as target, as the usage text \<open>log <id|#> [limit] [tools]\<close> offers,
  the index is taken for the limit: \<open>/subagents log 1\<close> calls \<open>chat.history\<close> with limit 1
  and not 20, and \<open>/subagents log 1 50\<close> with limit 1 and not 50. With a label as target
  the limit is the supplied one, and 20 when none is supplied.
\<close>

theorem log_limit_taken_from_index_target:
  "logLimit [''1''] = 1
   \<and> logLimit [''1'', ''50''] = 1
   \<and> trace (snd (handleSubagentsCommand exampleEnv (exampleCommand ''/subagents log 1'') True
                    (exampleWorld mixedRuns)))
       = [GatewayCall (historyCall ''agent:main:subagent:b'' 1)]
   \<and> trace (snd (handleSubagentsCommand exampleEnv (exampleCommand ''/subagents log 1 50'') True
                    (exampleWorld mixedRuns)))
       = [GatewayCall (historyCall ''agent:main:subagent:b'' 1)]
   \<and> trace (snd (handleSubagentsCommand exampleEnv (exampleCommand ''/subagents log b 50'') True
                    (exampleWorld mixedRuns)))
       = [GatewayCall (historyCall ''agent:main:subagent:b'' 50)]
   \<and> trace (snd (handleSubagentsCommand exampleEnv (exampleCommand ''/subagents log b'') True
                    (exampleWorld mixedRuns)))
       = [GatewayCall (historyCall ''agent:main:subagent:b'' 20)]"
  by code_simp

text \<open>
  X1 (what the \<open>log\<close> action does). The limit is between 1 and 200; it is 20 when no token
  of \<open>restTokens\<close> consists of digits, and otherwise the number of the first such token
  clamped to that range; the first such token is the target itself when the target consists
  of digits. For a resolved target the action makes exactly one gateway call,
  \<open>chat.history\<close> for the child session with that limit, and renders the messages of the
  answer, passed through \<open>stripToolMessages\<close> unless a token is \<open>tools\<close>.
\<close>

theorem log_limit_of_first_digit_token:
  "1 \<le> logLimit restTokens \<and> logLimit restTokens \<le> 200
   \<and> (find allDigits restTokens = None \<longrightarrow> logLimit restTokens = 20)
   \<and> (find allDigits restTokens = Some limitToken \<longrightarrow>
        logLimit restTokens = min 200 (max 1 (int (parseDigits limitToken))))
   \<and> (\<not> allDigits target \<longrightarrow> find allDigits (target # rest) = find allDigits rest)
   \<and> (allDigits target \<longrightarrow> find allDigits (target # rest) = Some target)
   \<and> (target \<noteq> []
        \<and> tr_entry (resolveSubagentTarget env (nowMs w) runs (Some target)) = Some entry \<longrightarrow>
        trace (snd (handleLog env (target # rest) runs w)) =
          trace w @ [GatewayCall (historyCall (childSessionKey entry) (logLimit (target # rest)))]
        \<and> (gateway env (historyCall (childSessionKey entry) (logLimit (target # rest))) = Inr history \<longrightarrow>
             fst (handleLog env (target # rest) runs w) =
               (case formatLogLines env
                       (if includeTools (target # rest) then historyMessages history
                        else stripToolMessages env (historyMessages history)) of
                  Inl err \<Rightarrow> Thrown err
                | Inr ls \<Rightarrow>
                    if ls = []
                    then replyWith (SCROLL_SIGN @ '' Subagent log: '' @ formatRunLabel env entry None
                                    @ newline @ ''(no messages)'')
                    else replyWith (joinWith newline
                           ((SCROLL_SIGN @ '' Subagent log: '' @ formatRunLabel env entry None) # ls)))))"
proof (intro conjI impI)
  show "1 \<le> logLimit restTokens"
    by (simp add: logLimit_def split: option.splits)
  show "logLimit restTokens \<le> 200"
    by (simp add: logLimit_def split: option.splits)
next
  assume "find allDigits restTokens = None"
  then show "logLimit restTokens = 20" by (simp add: logLimit_def)
next
  assume "find allDigits restTokens = Some limitToken"
  then show "logLimit restTokens = min 200 (max 1 (int (parseDigits limitToken)))"
    by (simp add: logLimit_def)
next
  assume "\<not> allDigits target"
  then show "find allDigits (target # rest) = find allDigits rest" by simp
next
  assume "allDigits target"
  then show "find allDigits (target # rest) = Some target" by simp
next
  assume h: "target \<noteq> []
        \<and> tr_entry (resolveSubagentTarget env (nowMs w) runs (Some target)) = Some entry"
  then show "trace (snd (handleLog env (target # rest) runs w)) =
          trace w @ [GatewayCall (historyCall (childSessionKey entry) (logLimit (target # rest)))]"
    by (simp add: handleLog_def callGateway_def Let_def split: sum.splits)
  assume "gateway env (historyCall (childSessionKey entry) (logLimit (target # rest))) = Inr history"
  with h show "fst (handleLog env (target # rest) runs w) =
               (case formatLogLines env
                       (if includeTools (target # rest) then historyMessages history
                        else stripToolMessages env (historyMessages history)) of
                  Inl err \<Rightarrow> Thrown err
                | Inr ls \<Rightarrow>
                    if ls = []
                    then replyWith (SCROLL_SIGN @ '' Subagent log: '' @ formatRunLabel env entry None
                                    @ newline @ ''(no messages)'')
                    else replyWith (joinWith newline
                           ((SCROLL_SIGN @ '' Subagent log: '' @ formatRunLabel env entry None) # ls)))"
    by (simp add: handleLog_def callGateway_def Let_def split: sum.splits)
qed


theorem log_limit_of_first_digit_token_witness:
  "find allDigits [''b'', ''50'', ''tools''] = Some ''50''
   \<and> logLimit [''b'', ''50'', ''tools''] = 50
   \<and> find allDigits [''b'', ''999''] = Some ''999''
   \<and> logLimit [''b'', ''999''] = 200
   \<and> find allDigits [''b'', ''tools''] = None
   \<and> logLimit [''b'', ''tools''] = 20
   \<and> tr_entry (resolveSubagentTarget exampleEnv (nowMs (exampleWorld mixedRuns)) mixedRuns (Some ''b''))
       = Some (exampleRun ''b'' 4300000 None)
   \<and> trace (snd (handleLog exampleEnv [''b'', ''50'', ''tools''] mixedRuns (exampleWorld mixedRuns)))
       = [GatewayCall (historyCall ''agent:main:subagent:b'' 50)]"
proof -
  have f1: "find allDigits [''b'', ''50'', ''tools''] = Some ''50''"
    and f2: "find allDigits [''b'', ''999''] = Some ''999''"
    and f3: "find allDigits [''b'', ''tools''] = None"
    by (simp_all add: allDigits_def isDigit_def)
  have p: "parseDigits ''50'' = 50" "parseDigits ''999'' = 999"
    by (simp_all add: parseDigits_def digitVal_def)
  have res: "tr_entry (resolveSubagentTarget exampleEnv (nowMs (exampleWorld mixedRuns)) mixedRuns
                         (Some ''b'')) = Some (exampleRun ''b'' 4300000 None)"
    by code_simp
  have ev: "childSessionKey (exampleRun ''b'' 4300000 None) = ''agent:main:subagent:b''"
    "trace (exampleWorld mixedRuns) = []"
    by (simp_all add: exampleRun_def exampleWorld_def)
  note A = log_limit_of_first_digit_token [where restTokens = "[''b'', ''50'', ''tools'']"
      and limitToken = "''50''" and target = "''b''" and rest = "[''50'', ''tools'']"
      and env = exampleEnv and w = "exampleWorld mixedRuns" and runs = mixedRuns
      and entry = "exampleRun ''b'' 4300000 None"]
  note B = log_limit_of_first_digit_token [where restTokens = "[''b'', ''999'']"
      and limitToken = "''999''"]
  note C = log_limit_of_first_digit_token [where restTokens = "[''b'', ''tools'']"]
  have a: "logLimit [''b'', ''50'', ''tools''] = 50"
    using A [THEN conjunct2, THEN conjunct2, THEN conjunct2, THEN conjunct1, THEN mp, OF f1]
    by (simp add: p)
  have b: "logLimit [''b'', ''999''] = 200"
    using B [THEN conjunct2, THEN conjunct2, THEN conjunct2, THEN conjunct1, THEN mp, OF f2]
    by (simp add: p)
  have c: "logLimit [''b'', ''tools''] = 20"
    using C [THEN conjunct2, THEN conjunct2, THEN conjunct1, THEN mp, OF f3] .
  have h: "''b'' \<noteq> [] \<and> tr_entry (resolveSubagentTarget exampleEnv (nowMs (exampleWorld mixedRuns))
                                     mixedRuns (Some ''b'')) = Some (exampleRun ''b'' 4300000 None)"
    using res by simp
  have t: "trace (snd (handleLog exampleEnv [''b'', ''50'', ''tools''] mixedRuns (exampleWorld mixedRuns)))
             = [GatewayCall (historyCall ''agent:main:subagent:b'' 50)]"
    using A [THEN conjunct2, THEN conjunct2, THEN conjunct2, THEN conjunct2, THEN conjunct2,
        THEN conjunct2, THEN mp, OF h, THEN conjunct1]
    by (simp add: ev a)
  from f1 f2 f3 a b c res t show ?thesis by simp
qed

end
